theory Spec2Isabelle
  imports Main "HOL-Library.Word"
begin

unbundle bit_operations_syntax

section \<open>Data of the program\<close>

text \<open>
  The program is \<^verbatim>\<open>src/Alcolimetro_v1/src/main.cpp\<close>, an ESP32 sketch that talks to a
  ZE29A ethanol sensor in 9-byte frames over a UART. Arduino's \<^verbatim>\<open>byte\<close> is an unsigned
  8-bit value; \<^verbatim>\<open>int\<close> on the ESP32 is a 32-bit two's-complement value. A \<^verbatim>\<open>byte\<close> read
  into an \<^verbatim>\<open>int\<close> expression is zero-extended (\<open>ucast\<close> upwards); the cast \<^verbatim>\<open>(byte)e\<close> of
  an \<^verbatim>\<open>int\<close> keeps the low 8 bits (\<open>ucast\<close> downwards).
\<close>

type_synonym byte = "8 word"
type_synonym cint = "32 word"

text \<open>The \<^verbatim>\<open>#define\<close>s of lines 18-29.\<close>

definition STATUS_IDLE :: byte where "STATUS_IDLE = 0x31"
definition STATUS_PREHEATING :: byte where "STATUS_PREHEATING = 0x32"
definition STATUS_WAITING_FOR_BLOW :: byte where "STATUS_WAITING_FOR_BLOW = 0x33"
definition STATUS_BLOWING :: byte where "STATUS_BLOWING = 0x34"
definition STATUS_BLOW_INTERRUPTED :: byte where "STATUS_BLOW_INTERRUPTED = 0x35"
definition STATUS_CALCULATING :: byte where "STATUS_CALCULATING = 0x36"
definition STATUS_READ_RESULT :: byte where "STATUS_READ_RESULT = 0x37"

definition ALARM_NONE :: byte where "ALARM_NONE = 0x00"
definition ALARM_DRINKING :: byte where "ALARM_DRINKING = 0x01"
definition ALARM_DRUNK :: byte where "ALARM_DRUNK = 0x02"

section \<open>Checksums\<close>

text \<open>
  The summing loop \<^verbatim>\<open>int sum = 0; for (int i = lo; i < hi; i++) sum += data[i];\<close>
  occurs four times (lines 62-65, 132-135, 351-354, 410-413). The index runs over
  \<open>[lo..<hi]\<close>; every use in the program stays inside the array it sums.
  The source's variable \<^verbatim>\<open>sum\<close> is written \<open>suma\<close>, since \<open>sum\<close> is a constant of HOL.
\<close>

definition sumar :: "byte list \<Rightarrow> nat \<Rightarrow> nat \<Rightarrow> cint" where
  "sumar data lo hi = foldl (\<lambda>suma i. suma + ucast (data ! i)) 0 [lo..<hi]"

text \<open>
  The three ways the source turns the sum into the check byte:
  \<^verbatim>\<open>(byte)((-sum) + 1)\<close> (line 66, and the commented-out line 137),
  \<^verbatim>\<open>(byte)((~sum) + 1)\<close> (lines 355 and 414) and
  \<^verbatim>\<open>(byte)(~(sum & 0xFF) + 1)\<close> (line 136).
\<close>

definition byte_neg_plus_1 :: "cint \<Rightarrow> byte" where
  "byte_neg_plus_1 suma = ucast ((- suma) + 1)"

definition byte_not_plus_1 :: "cint \<Rightarrow> byte" where
  "byte_not_plus_1 suma = ucast ((NOT suma) + 1)"

definition byte_masked_not_plus_1 :: "cint \<Rightarrow> byte" where
  "byte_masked_not_plus_1 suma = ucast (NOT (suma AND 0xFF) + 1)"

text \<open>\<^verbatim>\<open>calcularChecksum\<close> (lines 61-67); no function of the program calls it.\<close>

definition calcularChecksum :: "byte list \<Rightarrow> nat \<Rightarrow> byte" where
  "calcularChecksum data len = byte_neg_plus_1 (sumar data 0 len)"

text \<open>
  The check byte that \<^verbatim>\<open>cambiarEstado\<close> stores into \<^verbatim>\<open>cmd[8]\<close> (lines 132-136), and the
  one that \<^verbatim>\<open>leerTiempoSoplado\<close> and \<^verbatim>\<open>configurarTiempoSoplado\<close> store (lines 351-355 and
  410-414), for a 9-byte array \<open>cmd\<close>.
\<close>

definition checksum_cambiarEstado :: "byte list \<Rightarrow> byte" where
  "checksum_cambiarEstado cmd = byte_masked_not_plus_1 (sumar cmd 1 8)"

definition checksum_tiempoSoplado :: "byte list \<Rightarrow> byte" where
  "checksum_tiempoSoplado cmd = byte_not_plus_1 (sumar cmd 1 8)"

section \<open>Frames the program builds\<close>

text \<open>The hard-coded frames of lines 180 and 268, 224, 295 and 313.\<close>

definition cmdEstado :: "byte list" where
  "cmdEstado = [0xFF, 0x01, 0x85, 0x00, 0x00, 0x00, 0x00, 0x00, 0x7A]"

definition cmdLeerResultado :: "byte list" where
  "cmdLeerResultado = [0xFF, 0x01, 0x86, 0x00, 0x00, 0x00, 0x00, 0x00, 0x79]"

definition cmdUmbral :: "byte list" where
  "cmdUmbral = [0xFF, 0x01, 0x90, 0x00, 0x00, 0x00, 0x00, 0x00, 0x6F]"

definition cmdTest :: "byte list" where
  "cmdTest = [0xFF, 0x01, 0x85, 0x00, 0x00, 0x00, 0x00, 0x00, 0x7A]"

text \<open>The frames built at run time: lines 128-136, 347-355 and 406-414.\<close>

definition cmd_cambiarEstado :: "byte \<Rightarrow> byte list" where
  "cmd_cambiarEstado nuevoEstado =
     (let cmd = [0xFF, 0x01, 0x87, nuevoEstado, 0x00, 0x00, 0x00, 0x00, 0x00]
      in cmd[8 := checksum_cambiarEstado cmd])"

definition cmd_leerTiempoSoplado :: "byte list" where
  "cmd_leerTiempoSoplado =
     (let cmd = [0xFF, 0x01, 0x88, 0x00, 0x00, 0x00, 0x00, 0x00, 0x00]
      in cmd[8 := checksum_tiempoSoplado cmd])"

definition cmd_configurarTiempoSoplado :: "byte \<Rightarrow> byte list" where
  "cmd_configurarTiempoSoplado nuevoTiempo =
     (let cmd = [0xFF, 0x01, 0x89, nuevoTiempo, 0x00, 0x00, 0x00, 0x00, 0x00]
      in cmd[8 := checksum_tiempoSoplado cmd])"

text \<open>
  The checksum as the specification words it: the check byte of a 7-byte payload
  (frame bytes 1 to 7) is \<open>(0 - sum) mod 256\<close>; a 9-byte frame carries it at index 8.
\<close>

definition spec_checksum :: "byte list \<Rightarrow> int" where
  "spec_checksum p = (0 - sum_list (map uint p)) mod 256"

definition spec_checksum_valid :: "byte list \<Rightarrow> bool" where
  "spec_checksum_valid f \<longleftrightarrow> length f = 9 \<and> uint (f ! 8) = spec_checksum (take 7 (drop 1 f))"

section \<open>The serial link, the console and the globals\<close>

text \<open>
  The program's effects are made explicit in a record that every function takes and
  returns:
  \<^item> \<open>currentStatus\<close> and \<open>resultAvailable\<close> are the globals of lines 32 and 33
    (\<^verbatim>\<open>lastStatusCheck\<close> is only used by \<^verbatim>\<open>loop\<close>, which is not modelled);
  \<^item> \<open>sent\<close> lists the calls of \<^verbatim>\<open>SensorSerial.write(cmd, len)\<close> in order, each with the
    \<open>len\<close> bytes it writes;
  \<^item> \<open>console\<close> lists what is printed on \<^verbatim>\<open>Serial\<close>, one \<open>mensaje\<close> for each message
    of the source;
  \<^item> \<open>incoming\<close> and \<open>rounds\<close> are the environment. Wall-clock time is not modelled:
    what the clock and the sensor do is given beforehand. Each call of
    \<^verbatim>\<open>leerRespuesta\<close> takes the next element of \<open>incoming\<close>: the list of the passes of
    its loop that begin before the 3000 ms deadline (line 75), each pass with the byte
    that \<^verbatim>\<open>SensorSerial.read()\<close> returns in it, or \<open>None\<close> when
    \<^verbatim>\<open>SensorSerial.available()\<close> is 0; the deadline falls where the list ends. Each call
    of \<^verbatim>\<open>esperarEstado\<close> takes the next element of \<open>rounds\<close>: the number of passes of
    its loop, after the first, that begin before its deadline (line 41). An exhausted
    list stands for no pass of \<^verbatim>\<open>leerRespuesta\<close> (silence), and for no pass of
    \<^verbatim>\<open>esperarEstado\<close> after the first.
  The loops \<^verbatim>\<open>while (SensorSerial.available()) SensorSerial.read();\<close> (lines 51, 150,
  368, 427) throw received bytes away and change nothing in this record, and neither
  do \<^verbatim>\<open>flush\<close> and \<^verbatim>\<open>delay\<close>.
\<close>

type_synonym poll = "byte option"

datatype estado =
    Inactivo | Precalentamiento | EsperandoSoplido | Soplando | SoplidoInterrumpido
  | Calculando | ResultadoListo | EstadoDesconocido byte

datatype alarma = SinAlcohol | Bebido | Ebrio | AlarmaDesconocida byte

text \<open>
  The messages, by the line that prints them. A message that prints a value carries it.
  \<^item> \<^verbatim>\<open>esperarEstado\<close>: \<open>TimeoutEsperandoEstado\<close> (line 46).
  \<^item> \<^verbatim>\<open>leerRespuesta\<close>: \<open>BytesLeidos\<close> (94-95), \<open>TimeoutRespuesta\<close> (103), \<open>BytesParciales\<close>
    (105-106); \<open>Respuesta\<close> is the line of hexadecimal bytes of \<^verbatim>\<open>imprimirRespuesta\<close>
    (113-120).
  \<^item> \<^verbatim>\<open>cambiarEstado\<close>: \<open>IntentandoCambiar\<close> (124-125), \<open>ComandoEnviado\<close> (140-147, and
    358-365 in \<^verbatim>\<open>leerTiempoSoplado\<close>), \<open>CambioExitoso\<close> (164-165), \<open>CambioRechazado\<close> (167-168),
    \<open>RespuestaIncorrectaCambio\<close> (171), \<open>SinRespuestaCambio\<close> (174).
  \<^item> \<^verbatim>\<open>verificarEstado\<close>: \<open>Estado\<close> (189-216), \<open>ErrorLeerEstado\<close> (219).
  \<^item> \<^verbatim>\<open>leerResultado\<close>: \<open>ContenidoAlcohol\<close> (235-237; the \<^verbatim>\<open>float\<close> printed is the \<^verbatim>\<open>int\<close>
    \<^verbatim>\<open>alcoholContent\<close>, at most 65535, converted without loss), \<open>EstadoAlarma\<close> (239-253),
    \<open>RespuestaInvalidaResultado\<close> (255), \<open>ErrorLeerResultado\<close> (258).
  \<^item> \<^verbatim>\<open>iniciarPrueba\<close>: \<open>IniciandoPrueba\<close> (263-265), \<open>EstadoAntesDeIniciar\<close> (275-276),
    \<open>IniciandoPrecalentamiento\<close> (286), \<open>NoSePuedeIniciar\<close> (289-290).
  \<^item> \<^verbatim>\<open>consultarUmbrales\<close>: \<open>UmbralBebido\<close> (300-302), \<open>UmbralEbriedad\<close> (303-305).
  \<^item> \<^verbatim>\<open>probarComunicacion\<close>: \<open>ProbandoComunicacion\<close> (311), \<open>EnviandoComandoEstado\<close>
    (314-321), \<open>BytesDisponibles\<close> (325-326).
  \<^item> \<^verbatim>\<open>leerTiempoSoplado\<close>: \<open>LeyendoTiempoSoplado\<close> (344), \<open>TiempoSopladoActual\<close> (382-384),
    \<open>RespuestaIncorrectaTiempo\<close> (386), \<open>SinRespuestaTiempo\<close> (390).
  \<^item> \<^verbatim>\<open>configurarTiempoSoplado\<close>: \<open>TiempoFueraDeRango\<close> (397), \<open>ConfigurandoTiempo\<close>
    (401-403), \<open>Enviando\<close> (417-424), \<open>ConfiguracionExitosa\<close> (441), \<open>ConfiguracionRechazada\<close>
    (443), \<open>RespuestaIncorrectaConfiguracion\<close> (446), \<open>SinRespuestaConfiguracion\<close> (450).
\<close>

datatype mensaje =
    TimeoutEsperandoEstado
  | BytesLeidos nat
  | Respuesta "byte list"
  | TimeoutRespuesta
  | BytesParciales nat
  | IntentandoCambiar byte
  | ComandoEnviado "byte list"
  | CambioExitoso byte
  | CambioRechazado byte
  | RespuestaIncorrectaCambio
  | SinRespuestaCambio
  | Estado estado
  | ErrorLeerEstado
  | ContenidoAlcohol cint
  | EstadoAlarma alarma
  | RespuestaInvalidaResultado
  | ErrorLeerResultado
  | IniciandoPrueba
  | EstadoAntesDeIniciar byte
  | IniciandoPrecalentamiento
  | NoSePuedeIniciar
  | UmbralBebido byte
  | UmbralEbriedad byte
  | ProbandoComunicacion
  | EnviandoComandoEstado "byte list"
  | BytesDisponibles nat
  | LeyendoTiempoSoplado
  | TiempoSopladoActual byte
  | RespuestaIncorrectaTiempo
  | SinRespuestaTiempo
  | TiempoFueraDeRango
  | ConfigurandoTiempo byte
  | Enviando "byte list"
  | ConfiguracionExitosa
  | ConfiguracionRechazada
  | RespuestaIncorrectaConfiguracion
  | SinRespuestaConfiguracion

record world =
  currentStatus :: byte
  resultAvailable :: bool
  sent :: "byte list list"
  console :: "mensaje list"
  incoming :: "poll list list"
  rounds :: "nat list"

definition imprimir :: "mensaje list \<Rightarrow> world \<Rightarrow> world" where
  "imprimir ms s = s\<lparr>console := console s @ ms\<rparr>"

text \<open>\<^verbatim>\<open>imprimirRespuesta\<close> (lines 112-121) prints the first \<open>len\<close> bytes of the array.\<close>

definition imprimirRespuesta :: "byte list \<Rightarrow> nat \<Rightarrow> world \<Rightarrow> world" where
  "imprimirRespuesta response len s = imprimir [Respuesta (take len response)] s"

text \<open>\<^verbatim>\<open>enviarComando\<close> (lines 49-59).\<close>

definition enviarComando :: "byte list \<Rightarrow> nat \<Rightarrow> world \<Rightarrow> world" where
  "enviarComando cmd len s = s\<lparr>sent := sent s @ [take len cmd]\<rparr>"

section \<open>The frame reader\<close>

text \<open>
  The locals of \<^verbatim>\<open>leerRespuesta\<close> (lines 69-110). \<open>bytesRead\<close> is an \<^verbatim>\<open>int\<close> in the source
  that only counts upwards from 0, and \<open>expectedLen\<close> is 9 at every call: both are
  naturals here.
\<close>

record lector =
  buffer :: "byte list"
  bytesRead :: nat
  startByteFound :: bool

text \<open>
  The loop of lines 75-101 over the passes the deadline allows. A pass with no byte
  available only waits (line 100). Before the start byte is found a byte is either the
  start byte 0xFF, stored at index 0, or dropped (lines 80-87). Afterwards every byte is
  stored at index \<open>bytesRead\<close> (line 90) and the loop returns \<^verbatim>\<open>true\<close> once \<open>expectedLen\<close>
  bytes are there (lines 93-98). When the passes run out the deadline has passed and
  the loop is left with \<^verbatim>\<open>false\<close>. With \<open>expectedLen = 9\<close> and a 9-byte array, as at
  every call, the index of line 90 is at most 8.
\<close>

fun leerRespuesta_bucle :: "nat \<Rightarrow> poll list \<Rightarrow> lector \<Rightarrow> bool \<times> lector" where
  "leerRespuesta_bucle expectedLen [] l = (False, l)"
| "leerRespuesta_bucle expectedLen (None # ps) l = leerRespuesta_bucle expectedLen ps l"
| "leerRespuesta_bucle expectedLen (Some currentByte # ps) l =
     (if \<not> startByteFound l then
        (if currentByte = 0xFF
         then leerRespuesta_bucle expectedLen ps
                (l\<lparr>buffer := (buffer l)[0 := currentByte], bytesRead := 1, startByteFound := True\<rparr>)
         else leerRespuesta_bucle expectedLen ps l)
      else
        (let l' = l\<lparr>buffer := (buffer l)[bytesRead l := currentByte], bytesRead := bytesRead l + 1\<rparr>
         in if bytesRead l' \<ge> expectedLen then (True, l')
            else leerRespuesta_bucle expectedLen ps l'))"

definition next_incoming :: "world \<Rightarrow> poll list \<times> world" where
  "next_incoming s = (case incoming s of [] \<Rightarrow> ([], s) | ps # rest \<Rightarrow> (ps, s\<lparr>incoming := rest\<rparr>))"

text \<open>
  \<^verbatim>\<open>leerRespuesta\<close>: the loop, then the messages of lines 94-96 or 103-108. The result
  is the returned \<^verbatim>\<open>bool\<close> together with the caller's array as the call leaves it.
\<close>

definition leerRespuesta :: "byte list \<Rightarrow> nat \<Rightarrow> world \<Rightarrow> (bool \<times> byte list) \<times> world" where
  "leerRespuesta buffer0 expectedLen s =
     (let (ps, s1) = next_incoming s;
          (ok, l) = leerRespuesta_bucle expectedLen ps
                      \<lparr>buffer = buffer0, bytesRead = 0, startByteFound = False\<rparr>
      in if ok then
           ((True, buffer l),
            imprimirRespuesta (buffer l) expectedLen (imprimir [BytesLeidos (bytesRead l)] s1))
         else
           ((False, buffer l),
            (let s2 = imprimir [TimeoutRespuesta] s1
             in if bytesRead l > 0
                then imprimirRespuesta (buffer l) (bytesRead l) (imprimir [BytesParciales (bytesRead l)] s2)
                else s2)))"

text \<open>
  The arrays \<^verbatim>\<open>byte response[9];\<close> of lines 160, 181, 225, 271 and 297 are not
  initialised. They start at zero here, like the arrays of lines 378 and 437: the
  callers read the array only after \<^verbatim>\<open>leerRespuesta\<close> has returned \<^verbatim>\<open>true\<close>, when all
  nine positions have been written, and \<^verbatim>\<open>leerRespuesta\<close> prints only positions it has
  written (lemma \<open>leerRespuesta_initial_buffer\<close> below).
\<close>

definition response0 :: "byte list" where
  "response0 = replicate 9 0"

section \<open>The commands\<close>

text \<open>\<^verbatim>\<open>cambiarEstado\<close> (lines 123-177).\<close>

definition cambiarEstado :: "byte \<Rightarrow> world \<Rightarrow> world" where
  "cambiarEstado nuevoEstado s =
     (let s1 = imprimir [IntentandoCambiar nuevoEstado] s;
          cmd = cmd_cambiarEstado nuevoEstado;
          s2 = imprimir [ComandoEnviado cmd] s1;
          s3 = s2\<lparr>sent := sent s2 @ [take 9 cmd]\<rparr>;
          ((ok, response), s4) = leerRespuesta response0 9 s3
      in if ok then
           (if response ! 0 = 0xFF \<and> response ! 1 = 0x87 then
              (if response ! 2 = 0x01 then imprimir [CambioExitoso nuevoEstado] s4
               else imprimir [CambioRechazado (response ! 2)] s4)
            else imprimir [RespuestaIncorrectaCambio] s4)
         else imprimir [SinRespuestaCambio] s4)"

text \<open>The \<^verbatim>\<open>switch\<close> of lines 190-216, and \<^verbatim>\<open>verificarEstado\<close> (lines 179-221).\<close>

definition estado_de :: "byte \<Rightarrow> estado" where
  "estado_de c =
     (if c = STATUS_IDLE then Inactivo
      else if c = STATUS_PREHEATING then Precalentamiento
      else if c = STATUS_WAITING_FOR_BLOW then EsperandoSoplido
      else if c = STATUS_BLOWING then Soplando
      else if c = STATUS_BLOW_INTERRUPTED then SoplidoInterrumpido
      else if c = STATUS_CALCULATING then Calculando
      else if c = STATUS_READ_RESULT then ResultadoListo
      else EstadoDesconocido c)"

definition verificarEstado :: "world \<Rightarrow> world" where
  "verificarEstado s =
     (let s1 = enviarComando cmdEstado 9 s;
          ((ok, response), s2) = leerRespuesta response0 9 s1
      in if ok then
           (if response ! 0 = 0xFF \<and> response ! 1 = 0x85 then
              (let s3 = s2\<lparr>currentStatus := response ! 2\<rparr>;
                   s4 = imprimir [Estado (estado_de (currentStatus s3))] s3
               in if currentStatus s3 = STATUS_READ_RESULT
                  then s4\<lparr>resultAvailable := True\<rparr> else s4)
            else s2)
         else imprimir [ErrorLeerEstado] s2)"

text \<open>
  \<^verbatim>\<open>esperarEstado\<close> (lines 39-47): the loop over the passes its deadline allows, and the
  function. The first test of line 41 follows the reading of \<^verbatim>\<open>t0\<close> on line 40: no time
  has passed, and the test is \<open>0 < timeoutMs\<close>. So with a positive \<open>timeoutMs\<close> the first
  pass always runs, and \<^verbatim>\<open>verificarEstado\<close> is called at least once (with 10000, the value
  of the only call, line 283, this holds even if the millisecond clock ticks between the
  two readings); the number of passes after the first comes from the environment.
\<close>

fun esperarEstado_bucle :: "byte \<Rightarrow> nat \<Rightarrow> world \<Rightarrow> world" where
  "esperarEstado_bucle estadoDeseado 0 s = imprimir [TimeoutEsperandoEstado] s"
| "esperarEstado_bucle estadoDeseado (Suc n) s =
     (let s1 = verificarEstado s
      in if currentStatus s1 = estadoDeseado then s1
         else esperarEstado_bucle estadoDeseado n s1)"

definition esperarEstado :: "byte \<Rightarrow> nat \<Rightarrow> world \<Rightarrow> world" where
  "esperarEstado estadoDeseado timeoutMs s =
     (if timeoutMs = 0 then esperarEstado_bucle estadoDeseado 0 s
      else
        (case rounds s of
           [] \<Rightarrow> esperarEstado_bucle estadoDeseado (Suc 0) s
         | n # rest \<Rightarrow> esperarEstado_bucle estadoDeseado (Suc n) (s\<lparr>rounds := rest\<rparr>)))"

text \<open>The \<^verbatim>\<open>switch\<close> of lines 240-253, and \<^verbatim>\<open>leerResultado\<close> (lines 223-260).\<close>

definition alarma_de :: "byte \<Rightarrow> alarma" where
  "alarma_de alarmStatus =
     (if alarmStatus = ALARM_NONE then SinAlcohol
      else if alarmStatus = ALARM_DRINKING then Bebido
      else if alarmStatus = ALARM_DRUNK then Ebrio
      else AlarmaDesconocida alarmStatus)"

definition leerResultado :: "world \<Rightarrow> world" where
  "leerResultado s =
     (let s1 = enviarComando cmdLeerResultado 9 s;
          ((ok, response), s2) = leerRespuesta response0 9 s1
      in if ok then
           (if response ! 0 = 0xFF \<and> response ! 1 = 0x86 then
              (let alcoholContent = (push_bit 8 (ucast (response ! 2)) OR ucast (response ! 3) :: cint);
                   alarmStatus = response ! 7
               in imprimir [ContenidoAlcohol alcoholContent, EstadoAlarma (alarma_de alarmStatus)] s2)
            else imprimir [RespuestaInvalidaResultado] s2)
         else imprimir [ErrorLeerResultado] s2)"

text \<open>
  \<^verbatim>\<open>iniciarPrueba\<close> (lines 262-292), in two parts: the status query of lines 263-278,
  which refreshes \<open>currentStatus\<close> when a status response arrives, and the test of lines
  280-291 on the refreshed value.
\<close>

definition iniciarPrueba_consulta :: "world \<Rightarrow> world" where
  "iniciarPrueba_consulta s =
     (let s1 = imprimir [IniciandoPrueba] s;
          s2 = enviarComando cmdEstado 9 s1;
          ((ok, response), s3) = leerRespuesta response0 9 s2
      in if ok \<and> response ! 0 = 0xFF \<and> response ! 1 = 0x85
         then imprimir [EstadoAntesDeIniciar (response ! 2)] (s3\<lparr>currentStatus := response ! 2\<rparr>)
         else s3)"

definition iniciarPrueba :: "world \<Rightarrow> world" where
  "iniciarPrueba s =
     (let s1 = iniciarPrueba_consulta s
      in if currentStatus s1 = STATUS_IDLE \<or> currentStatus s1 = STATUS_READ_RESULT then
           imprimir [IniciandoPrecalentamiento]
             (cambiarEstado STATUS_PREHEATING (esperarEstado STATUS_IDLE 10000 s1))
         else imprimir [NoSePuedeIniciar] s1)"

text \<open>\<^verbatim>\<open>consultarUmbrales\<close> (lines 294-308).\<close>

definition consultarUmbrales :: "world \<Rightarrow> world" where
  "consultarUmbrales s =
     (let s1 = enviarComando cmdUmbral 9 s;
          ((ok, response), s2) = leerRespuesta response0 9 s1
      in if ok \<and> response ! 0 = 0xFF \<and> response ! 1 = 0x90
         then imprimir [UmbralBebido (response ! 2), UmbralEbriedad (response ! 3)] s2
         else s2)"

text \<open>
  \<^verbatim>\<open>probarComunicacion\<close> (lines 310-327); \<open>disponibles\<close> is what
  \<^verbatim>\<open>SensorSerial.available()\<close> returns at line 326.
\<close>

definition probarComunicacion :: "nat \<Rightarrow> world \<Rightarrow> world" where
  "probarComunicacion disponibles s =
     (let s1 = imprimir [ProbandoComunicacion, EnviandoComandoEstado cmdTest] s;
          s2 = enviarComando cmdTest 9 s1
      in imprimir [BytesDisponibles disponibles] s2)"

text \<open>\<^verbatim>\<open>leerTiempoSoplado\<close> (lines 343-392).\<close>

definition leerTiempoSoplado :: "world \<Rightarrow> world" where
  "leerTiempoSoplado s =
     (let s1 = imprimir [LeyendoTiempoSoplado] s;
          cmd = cmd_leerTiempoSoplado;
          s2 = imprimir [ComandoEnviado cmd] s1;
          s3 = s2\<lparr>sent := sent s2 @ [take 9 cmd]\<rparr>;
          ((ok, response), s4) = leerRespuesta (replicate 9 0) 9 s3
      in if ok then
           (if response ! 0 = 0xFF \<and> response ! 1 = 0x88
            then imprimir [TiempoSopladoActual (response ! 2)] s4
            else imprimirRespuesta response 9 (imprimir [RespuestaIncorrectaTiempo] s4))
         else imprimir [SinRespuestaTiempo] s4)"

text \<open>
  \<^verbatim>\<open>configurarTiempoSoplado\<close> (lines 395-452). The parameter is a \<^verbatim>\<open>byte\<close>; the comparisons
  of line 396 are on its value, between 0 and 255.
\<close>

definition configurarTiempoSoplado :: "byte \<Rightarrow> world \<Rightarrow> world" where
  "configurarTiempoSoplado nuevoTiempo s =
     (if nuevoTiempo < 1 \<or> nuevoTiempo > 10 then imprimir [TiempoFueraDeRango] s
      else
        (let s1 = imprimir [ConfigurandoTiempo nuevoTiempo] s;
             cmd = cmd_configurarTiempoSoplado nuevoTiempo;
             s2 = imprimir [Enviando cmd] s1;
             s3 = s2\<lparr>sent := sent s2 @ [take 9 cmd]\<rparr>;
             ((ok, response), s4) = leerRespuesta (replicate 9 0) 9 s3
         in if ok then
              (if response ! 0 = 0xFF \<and> response ! 1 = 0x89 then
                 (if response ! 2 = 0x01 then imprimir [ConfiguracionExitosa] s4
                  else imprimir [ConfiguracionRechazada] s4)
               else imprimirRespuesta response 9 (imprimir [RespuestaIncorrectaConfiguracion] s4))
            else imprimir [SinRespuestaConfiguracion] s4))"

section \<open>Auxiliary notions for the statements\<close>

text \<open>
  The bytes that one call of \<^verbatim>\<open>leerRespuesta\<close> is offered, in order, the idle passes
  left out.
\<close>

fun bytes_of :: "poll list \<Rightarrow> byte list" where
  "bytes_of [] = []"
| "bytes_of (None # ps) = bytes_of ps"
| "bytes_of (Some b # ps) = b # bytes_of ps"

section \<open>Arithmetic of the casts\<close>

lemmas status_defs =
  STATUS_IDLE_def STATUS_PREHEATING_def STATUS_WAITING_FOR_BLOW_def STATUS_BLOWING_def
  STATUS_BLOW_INTERRUPTED_def STATUS_CALCULATING_def STATUS_READ_RESULT_def

lemmas alarm_defs = ALARM_NONE_def ALARM_DRINKING_def ALARM_DRUNK_def

lemma down_word_of_int: "(ucast (word_of_int k :: cint) :: byte) = word_of_int k"
  by (simp add: ucast_eq word_of_int_eq_iff uint_word_of_int_eq flip: take_bit_eq_mod)

lemma down_neg: "(ucast (- (x::cint)) :: byte) = - ucast x"
proof -
  have "(ucast (- x) :: byte) = ucast (word_of_int (- uint x) :: cint)" by simp
  also have "\<dots> = word_of_int (- uint x)" by (rule down_word_of_int)
  also have "\<dots> = - ucast x" by (simp only: ucast_eq wi_hom_neg)
  finally show ?thesis .
qed

lemma down_add: "(ucast ((x::cint) + y) :: byte) = ucast x + ucast y"
proof -
  have "(ucast (x + y) :: byte) = ucast (word_of_int (uint x + uint y) :: cint)" by simp
  also have "\<dots> = word_of_int (uint x + uint y)" by (rule down_word_of_int)
  also have "\<dots> = ucast x + ucast y" by (simp only: ucast_eq wi_hom_add)
  finally show ?thesis .
qed

lemma down_up: "(ucast (ucast (b::byte) :: cint) :: byte) = b"
  by (simp add: ucast_up_ucast_id is_up)

lemma down_one: "(ucast (1::cint) :: byte) = 1"
  by simp

lemma down_and_FF: "(ucast ((x::cint) AND 0xFF) :: byte) = ucast x"
proof -
  have m: "(0xFF::cint) = mask 8" by (simp add: mask_eq_exp_minus_1)
  show ?thesis unfolding m by (rule bit_word_eqI) (simp add: bit_simps)
qed

lemma byte_not_plus_1_eq: "byte_not_plus_1 x = - ucast x"
  unfolding byte_not_plus_1_def by (simp only: down_neg flip: minus_eq_not_plus_1)

lemma byte_masked_not_plus_1_eq: "byte_masked_not_plus_1 x = - ucast x"
  unfolding byte_masked_not_plus_1_def
  by (simp only: down_neg down_and_FF flip: minus_eq_not_plus_1)

lemma byte_neg_plus_1_eq: "byte_neg_plus_1 x = 1 - ucast x"
  unfolding byte_neg_plus_1_def by (simp only: down_add down_neg down_one) simp

section \<open>The reader, characterised on the bytes it is offered\<close>

lemma bucle_bytes_of:
  "leerRespuesta_bucle n ps l = leerRespuesta_bucle n (map Some (bytes_of ps)) l"
  by (induction n ps l rule: leerRespuesta_bucle.induct) (simp_all add: Let_def)

text \<open>
  After the start byte: the next bytes fill the array from index \<open>bytesRead\<close> on, until
  \<open>n\<close> bytes are there or the bytes run out.
\<close>

lemma bucle_started:
  "startByteFound l \<Longrightarrow> bytesRead l < n \<Longrightarrow> n \<le> length (buffer l) \<Longrightarrow>
   leerRespuesta_bucle n (map Some bs) l =
     (if n - bytesRead l \<le> length bs
      then (True, l\<lparr>buffer := take (bytesRead l) (buffer l) @ take (n - bytesRead l) bs @ drop n (buffer l),
                     bytesRead := n\<rparr>)
      else (False, l\<lparr>buffer := take (bytesRead l) (buffer l) @ bs @ drop (bytesRead l + length bs) (buffer l),
                      bytesRead := bytesRead l + length bs\<rparr>))"
proof (induction bs arbitrary: l)
  case Nil
  then show ?case by simp
next
  case (Cons b bs)
  let ?l' = "l\<lparr>buffer := (buffer l)[bytesRead l := b], bytesRead := bytesRead l + 1\<rparr>"
  show ?case
  proof (cases "n \<le> bytesRead l + 1")
    case True
    with Cons.prems have n: "n = bytesRead l + 1" by simp
    with Cons.prems show ?thesis
      by (simp add: Let_def upd_conv_take_nth_drop)
  next
    case False
    with Cons.prems have p: "startByteFound ?l'" "bytesRead ?l' < n" "n \<le> length (buffer ?l')"
      by simp_all
    have t: "take (bytesRead l + 1) ((buffer l)[bytesRead l := b]) = take (bytesRead l) (buffer l) @ [b]"
      using Cons.prems by (simp add: take_Suc_conv_app_nth)
    from False Cons.prems show ?thesis
      using Cons.IH [OF p] t
      by (auto simp add: Let_def Suc_diff_le take_Suc_conv_app_nth take_Cons')
  qed
qed

lemma bucle_unstarted_none:
  "\<not> startByteFound l \<Longrightarrow> 0xFF \<notin> set g \<Longrightarrow> leerRespuesta_bucle n (map Some g) l = (False, l)"
  by (induction g) auto

lemma bucle_unstarted_start:
  "\<not> startByteFound l \<Longrightarrow> 0xFF \<notin> set g \<Longrightarrow>
   leerRespuesta_bucle n (map Some (g @ 0xFF # bs)) l =
   leerRespuesta_bucle n (map Some bs)
     (l\<lparr>buffer := (buffer l)[0 := 0xFF], bytesRead := 1, startByteFound := True\<rparr>)"
  by (induction g) auto

lemma take1_upd0: "0 < length xs \<Longrightarrow> take (Suc 0) (xs[0 := x]) = [x]"
  by (cases xs) simp_all

lemma bucle_frame:
  assumes "length buffer0 = 9" "0xFF \<notin> set g" "length f = 9" "f ! 0 = 0xFF"
    and "bytes_of ps = g @ f @ rest"
  shows "leerRespuesta_bucle 9 ps \<lparr>buffer = buffer0, bytesRead = 0, startByteFound = False\<rparr>
         = (True, \<lparr>buffer = f, bytesRead = 9, startByteFound = True\<rparr>)"
proof -
  from assms(3,4) obtain f' where f: "f = 0xFF # f'" and f': "length f' = 8"
    by (cases f) auto
  let ?l0 = "\<lparr>buffer = buffer0, bytesRead = 0, startByteFound = False\<rparr>"
  let ?l1 = "\<lparr>buffer = buffer0[0 := 0xFF], bytesRead = 1, startByteFound = True\<rparr>"
  have "leerRespuesta_bucle 9 ps ?l0 = leerRespuesta_bucle 9 (map Some (g @ 0xFF # (f' @ rest))) ?l0"
    using assms(5) f by (subst bucle_bytes_of) simp
  also have "\<dots> = leerRespuesta_bucle 9 (map Some (f' @ rest)) ?l1"
    using assms(2) by (subst bucle_unstarted_start) simp_all
  also have "\<dots> = (True, \<lparr>buffer = f, bytesRead = 9, startByteFound = True\<rparr>)"
    using assms(1) f f' by (subst bucle_started) (simp_all add: take1_upd0)
  finally show ?thesis .
qed

lemma bucle_partial:
  assumes "length buffer0 = 9" "0xFF \<notin> set g" "length d < 8"
    and "bytes_of ps = g @ 0xFF # d"
  shows "leerRespuesta_bucle 9 ps \<lparr>buffer = buffer0, bytesRead = 0, startByteFound = False\<rparr>
         = (False, \<lparr>buffer = 0xFF # d @ drop (Suc (length d)) buffer0, bytesRead = Suc (length d),
                     startByteFound = True\<rparr>)"
proof -
  let ?l0 = "\<lparr>buffer = buffer0, bytesRead = 0, startByteFound = False\<rparr>"
  let ?l1 = "\<lparr>buffer = buffer0[0 := 0xFF], bytesRead = 1, startByteFound = True\<rparr>"
  have "leerRespuesta_bucle 9 ps ?l0 = leerRespuesta_bucle 9 (map Some (g @ 0xFF # d)) ?l0"
    using assms(4) by (subst bucle_bytes_of) simp
  also have "\<dots> = leerRespuesta_bucle 9 (map Some d) ?l1"
    using assms(2) by (subst bucle_unstarted_start) simp_all
  also have "\<dots> = (False, \<lparr>buffer = 0xFF # d @ drop (Suc (length d)) buffer0,
                      bytesRead = Suc (length d), startByteFound = True\<rparr>)"
    using assms(1,3) by (subst bucle_started) (simp_all add: take1_upd0)
  finally show ?thesis .
qed

lemma bucle_nodata:
  assumes "0xFF \<notin> set (bytes_of ps)"
  shows "leerRespuesta_bucle n ps \<lparr>buffer = buffer0, bytesRead = 0, startByteFound = False\<rparr>
         = (False, \<lparr>buffer = buffer0, bytesRead = 0, startByteFound = False\<rparr>)"
  using assms by (subst bucle_bytes_of) (simp add: bucle_unstarted_none)

lemma leerRespuesta_frame:
  assumes "length buffer0 = 9" "0xFF \<notin> set g" "length f = 9" "f ! 0 = 0xFF"
    and "bytes_of ps = g @ f @ rest" "incoming s = ps # later"
  shows "leerRespuesta buffer0 9 s =
           ((True, f), s\<lparr>console := console s @ [BytesLeidos 9, Respuesta f], incoming := later\<rparr>)"
  using assms(3,6) bucle_frame [OF assms(1-5)]
  by (simp add: leerRespuesta_def next_incoming_def imprimir_def imprimirRespuesta_def)

lemma leerRespuesta_partial:
  assumes "length buffer0 = 9" "0xFF \<notin> set g" "length d < 8"
    and "bytes_of ps = g @ 0xFF # d" "incoming s = ps # later"
  shows "leerRespuesta buffer0 9 s =
           ((False, 0xFF # d @ drop (Suc (length d)) buffer0),
            s\<lparr>console := console s @
                  [TimeoutRespuesta, BytesParciales (Suc (length d)), Respuesta (0xFF # d)],
              incoming := later\<rparr>)"
  using assms(5) bucle_partial [OF assms(1-4)]
  by (simp add: leerRespuesta_def next_incoming_def imprimir_def imprimirRespuesta_def)

lemma leerRespuesta_nodata:
  assumes "0xFF \<notin> set (bytes_of ps)" "incoming s = ps # later"
  shows "leerRespuesta buffer0 n s =
           ((False, buffer0), s\<lparr>console := console s @ [TimeoutRespuesta], incoming := later\<rparr>)"
  using assms(2) bucle_nodata [OF assms(1)]
  by (simp add: leerRespuesta_def next_incoming_def imprimir_def imprimirRespuesta_def)

lemma leerRespuesta_silence:
  assumes "incoming s = []"
  shows "leerRespuesta buffer0 n s =
           ((False, buffer0), s\<lparr>console := console s @ [TimeoutRespuesta]\<rparr>)"
  using assms
  by (simp add: leerRespuesta_def next_incoming_def imprimir_def imprimirRespuesta_def)

text \<open>What a call of \<^verbatim>\<open>leerRespuesta\<close> leaves alone.\<close>

lemma leerRespuesta_keeps:
  "sent (snd (leerRespuesta b n s)) = sent s"
  "currentStatus (snd (leerRespuesta b n s)) = currentStatus s"
  "resultAvailable (snd (leerRespuesta b n s)) = resultAvailable s"
  "rounds (snd (leerRespuesta b n s)) = rounds s"
  by (auto simp add: leerRespuesta_def next_incoming_def imprimir_def imprimirRespuesta_def Let_def
      split: prod.splits list.splits)

section \<open>The check bytes of the frames\<close>

lemma upt_0_7: "[0..<7] = [0, 1, 2, 3, 4, 5, 6::nat]"
  by code_simp

lemma upt_1_8: "[1..<8] = [1, 2, 3, 4, 5, 6, 7::nat]"
  by code_simp

lemma sumar_1_8:
  "sumar cmd 1 8 = ucast (cmd ! 1) + ucast (cmd ! 2) + ucast (cmd ! 3) + ucast (cmd ! 4)
                   + ucast (cmd ! 5) + ucast (cmd ! 6) + ucast (cmd ! 7)"
  unfolding sumar_def upt_1_8 by simp

lemma down_sumar_1_8:
  "(ucast (sumar cmd 1 8) :: byte) = cmd ! 1 + cmd ! 2 + cmd ! 3 + cmd ! 4 + cmd ! 5 + cmd ! 6 + cmd ! 7"
  unfolding sumar_1_8 by (simp only: down_add down_up)

lemma uint_neg_sum7:
  "uint (- (b1 + b2 + b3 + b4 + b5 + b6 + b7 :: byte)) = spec_checksum [b1, b2, b3, b4, b5, b6, b7]"
  by (simp add: spec_checksum_def uint_word_ariths mod_simps add.assoc)

lemma checksum_tiempoSoplado_spec:
  "uint (checksum_tiempoSoplado [b0, b1, b2, b3, b4, b5, b6, b7, b8]) = spec_checksum [b1, b2, b3, b4, b5, b6, b7]"
  unfolding checksum_tiempoSoplado_def byte_not_plus_1_eq down_sumar_1_8
  using uint_neg_sum7 [of b1 b2 b3 b4 b5 b6 b7] by simp

lemma checksum_cambiarEstado_spec:
  "uint (checksum_cambiarEstado [b0, b1, b2, b3, b4, b5, b6, b7, b8]) = spec_checksum [b1, b2, b3, b4, b5, b6, b7]"
  unfolding checksum_cambiarEstado_def byte_masked_not_plus_1_eq down_sumar_1_8
  using uint_neg_sum7 [of b1 b2 b3 b4 b5 b6 b7] by simp

lemma spec_checksum_not: "spec_checksum p = (NOT (sum_list (map uint p)) + 1) AND 0xFF"
proof -
  have m: "(0xFF::int) = mask 8" by (simp add: mask_eq_exp_minus_1)
  show ?thesis
    unfolding spec_checksum_def m by (simp add: not_int_def take_bit_eq_mod flip: take_bit_eq_mask)
qed

lemma spec_checksum_cancels: "(sum_list (map uint p) + spec_checksum p) mod 256 = 0"
  unfolding spec_checksum_def by (simp add: mod_simps)

lemma valid_hard_coded:
  "spec_checksum_valid cmdEstado" "spec_checksum_valid cmdLeerResultado"
  "spec_checksum_valid cmdUmbral" "spec_checksum_valid cmdTest"
  by (simp_all add: spec_checksum_valid_def spec_checksum_def cmdEstado_def cmdLeerResultado_def
      cmdUmbral_def cmdTest_def)

lemma valid_cmd_cambiarEstado: "spec_checksum_valid (cmd_cambiarEstado e)"
  unfolding cmd_cambiarEstado_def Let_def spec_checksum_valid_def
  by (simp add: checksum_cambiarEstado_spec)

lemma valid_cmd_leerTiempoSoplado: "spec_checksum_valid cmd_leerTiempoSoplado"
  unfolding cmd_leerTiempoSoplado_def Let_def spec_checksum_valid_def
  by (simp add: checksum_tiempoSoplado_spec)

lemma valid_cmd_configurarTiempoSoplado: "spec_checksum_valid (cmd_configurarTiempoSoplado t)"
  unfolding cmd_configurarTiempoSoplado_def Let_def spec_checksum_valid_def
  by (simp add: checksum_tiempoSoplado_spec)

lemma cmd_configurarTiempoSoplado_7:
  "cmd_configurarTiempoSoplado 7 = [0xFF, 0x01, 0x89, 0x07, 0, 0, 0, 0, 0x6F]"
  unfolding cmd_configurarTiempoSoplado_def checksum_tiempoSoplado_def sumar_1_8
  by (simp add: byte_not_plus_1_def)

section \<open>What each command writes to the sensor\<close>

lemma length_cmd:
  "length (cmd_cambiarEstado e) = 9" "length cmd_leerTiempoSoplado = 9"
  "length (cmd_configurarTiempoSoplado t) = 9" "length cmdEstado = 9" "length cmdLeerResultado = 9"
  "length cmdUmbral = 9" "length cmdTest = 9"
  by (simp_all add: cmd_cambiarEstado_def cmd_leerTiempoSoplado_def cmd_configurarTiempoSoplado_def
      cmdEstado_def cmdLeerResultado_def cmdUmbral_def cmdTest_def Let_def)

lemma sent_imprimir: "sent (imprimir ms s) = sent s"
  by (simp add: imprimir_def)

lemma sent_imprimirRespuesta: "sent (imprimirRespuesta r n s) = sent s"
  by (simp add: imprimirRespuesta_def imprimir_def)

lemma sent_enviarComando: "sent (enviarComando cmd n s) = sent s @ [take n cmd]"
  by (simp add: enviarComando_def)

lemma sent_cambiarEstado: "sent (cambiarEstado e s) = sent s @ [cmd_cambiarEstado e]"
  by (simp add: cambiarEstado_def Let_def case_prod_beta sent_imprimir leerRespuesta_keeps length_cmd)

lemma sent_verificarEstado: "sent (verificarEstado s) = sent s @ [cmdEstado]"
  by (simp add: verificarEstado_def Let_def case_prod_beta sent_imprimir sent_enviarComando
      leerRespuesta_keeps length_cmd)

lemma sent_esperarEstado_bucle:
  "\<exists>k. sent (esperarEstado_bucle e n s) = sent s @ replicate k cmdEstado"
proof (induction n arbitrary: s)
  case 0
  have "sent (esperarEstado_bucle e 0 s) = sent s @ replicate 0 cmdEstado"
    by (simp add: sent_imprimir)
  then show ?case by blast
next
  case (Suc n)
  from Suc.IH [of "verificarEstado s"] obtain k
    where k: "sent (esperarEstado_bucle e n (verificarEstado s)) = sent (verificarEstado s) @ replicate k cmdEstado"
    by blast
  show ?case
  proof (cases "currentStatus (verificarEstado s) = e")
    case True
    then have "sent (esperarEstado_bucle e (Suc n) s) = sent s @ replicate 1 cmdEstado"
      by (simp add: Let_def sent_verificarEstado)
    then show ?thesis by blast
  next
    case False
    then have "sent (esperarEstado_bucle e (Suc n) s) = sent s @ replicate (Suc k) cmdEstado"
      using k by (simp add: Let_def sent_verificarEstado)
    then show ?thesis by blast
  qed
qed

lemma sent_esperarEstado:
  "\<exists>k. sent (esperarEstado e t s) = sent s @ replicate k cmdEstado"
proof (cases "rounds s")
  case Nil
  then show ?thesis
    using sent_esperarEstado_bucle [of e 0 s] sent_esperarEstado_bucle [of e "Suc 0" s]
    by (simp add: esperarEstado_def del: esperarEstado_bucle.simps)
next
  case (Cons n rest)
  then show ?thesis
    using sent_esperarEstado_bucle [of e 0 s]
      sent_esperarEstado_bucle [of e "Suc n" "s\<lparr>rounds := rest\<rparr>"]
    by (simp add: esperarEstado_def del: esperarEstado_bucle.simps)
qed

text \<open>With a positive \<open>timeoutMs\<close>, \<^verbatim>\<open>esperarEstado\<close> writes at least one status query.\<close>

lemma sent_esperarEstado_bucle_Suc:
  "\<exists>k. sent (esperarEstado_bucle e (Suc n) s) = sent s @ cmdEstado # replicate k cmdEstado"
proof (cases "currentStatus (verificarEstado s) = e")
  case True
  then have "sent (esperarEstado_bucle e (Suc n) s) = sent s @ cmdEstado # replicate 0 cmdEstado"
    by (simp add: Let_def sent_verificarEstado)
  then show ?thesis by blast
next
  case False
  obtain k where "sent (esperarEstado_bucle e n (verificarEstado s))
      = sent (verificarEstado s) @ replicate k cmdEstado"
    using sent_esperarEstado_bucle by blast
  with False have "sent (esperarEstado_bucle e (Suc n) s) = sent s @ cmdEstado # replicate k cmdEstado"
    by (simp add: Let_def sent_verificarEstado)
  then show ?thesis by blast
qed

lemma sent_esperarEstado_positive:
  assumes "0 < t"
  shows "\<exists>k. sent (esperarEstado e t s) = sent s @ cmdEstado # replicate k cmdEstado"
proof (cases "rounds s")
  case Nil
  then show ?thesis
    using assms sent_esperarEstado_bucle_Suc [of e 0 s]
    by (simp add: esperarEstado_def del: esperarEstado_bucle.simps)
next
  case (Cons n rest)
  then show ?thesis
    using assms sent_esperarEstado_bucle_Suc [of e n "s\<lparr>rounds := rest\<rparr>"]
    by (simp add: esperarEstado_def del: esperarEstado_bucle.simps)
qed

lemma sent_leerResultado: "sent (leerResultado s) = sent s @ [cmdLeerResultado]"
  by (simp add: leerResultado_def Let_def case_prod_beta sent_imprimir sent_enviarComando
      leerRespuesta_keeps length_cmd)

lemma sent_iniciarPrueba_consulta: "sent (iniciarPrueba_consulta s) = sent s @ [cmdEstado]"
  by (simp add: iniciarPrueba_consulta_def Let_def case_prod_beta sent_imprimir sent_enviarComando
      leerRespuesta_keeps length_cmd)

lemma sent_iniciarPrueba:
  "\<exists>k. sent (iniciarPrueba s) =
     (if currentStatus (iniciarPrueba_consulta s) = STATUS_IDLE
         \<or> currentStatus (iniciarPrueba_consulta s) = STATUS_READ_RESULT
      then sent s @ cmdEstado # replicate k cmdEstado @ [cmd_cambiarEstado STATUS_PREHEATING]
      else sent s @ [cmdEstado])"
proof -
  obtain k where "sent (esperarEstado STATUS_IDLE 10000 (iniciarPrueba_consulta s))
      = sent (iniciarPrueba_consulta s) @ replicate k cmdEstado"
    using sent_esperarEstado by blast
  then have "sent (iniciarPrueba s) =
     (if currentStatus (iniciarPrueba_consulta s) = STATUS_IDLE
         \<or> currentStatus (iniciarPrueba_consulta s) = STATUS_READ_RESULT
      then sent s @ cmdEstado # replicate k cmdEstado @ [cmd_cambiarEstado STATUS_PREHEATING]
      else sent s @ [cmdEstado])"
    by (simp add: iniciarPrueba_def Let_def sent_imprimir sent_cambiarEstado sent_iniciarPrueba_consulta)
  then show ?thesis by blast
qed

lemma sent_consultarUmbrales: "sent (consultarUmbrales s) = sent s @ [cmdUmbral]"
  by (simp add: consultarUmbrales_def Let_def case_prod_beta sent_imprimir sent_enviarComando
      leerRespuesta_keeps length_cmd)

lemma sent_probarComunicacion: "sent (probarComunicacion d s) = sent s @ [cmdTest]"
  by (simp add: probarComunicacion_def Let_def sent_imprimir sent_enviarComando length_cmd)

lemma sent_leerTiempoSoplado: "sent (leerTiempoSoplado s) = sent s @ [cmd_leerTiempoSoplado]"
  by (simp add: leerTiempoSoplado_def Let_def case_prod_beta sent_imprimir sent_imprimirRespuesta
      leerRespuesta_keeps length_cmd)

lemma sent_configurarTiempoSoplado:
  "sent (configurarTiempoSoplado t s) =
     (if t < 1 \<or> 10 < t then sent s else sent s @ [cmd_configurarTiempoSoplado t])"
  by (simp add: configurarTiempoSoplado_def Let_def case_prod_beta sent_imprimir sent_imprimirRespuesta
      leerRespuesta_keeps length_cmd)

lemma valid_esperarEstado:
  assumes "list_all spec_checksum_valid (sent s)"
  shows "list_all spec_checksum_valid (sent (esperarEstado e t s))"
proof -
  obtain k where "sent (esperarEstado e t s) = sent s @ replicate k cmdEstado"
    using sent_esperarEstado by blast
  with assms show ?thesis
    by (auto simp add: valid_hard_coded list_all_iff)
qed

lemma valid_iniciarPrueba:
  assumes "list_all spec_checksum_valid (sent s)"
  shows "list_all spec_checksum_valid (sent (iniciarPrueba s))"
proof -
  obtain k where "sent (iniciarPrueba s) =
     (if currentStatus (iniciarPrueba_consulta s) = STATUS_IDLE
         \<or> currentStatus (iniciarPrueba_consulta s) = STATUS_READ_RESULT
      then sent s @ cmdEstado # replicate k cmdEstado @ [cmd_cambiarEstado STATUS_PREHEATING]
      else sent s @ [cmdEstado])"
    using sent_iniciarPrueba by blast
  with assms show ?thesis
    by (auto simp add: valid_hard_coded valid_cmd_cambiarEstado list_all_iff)
qed


text \<open>
  The two derivations that the transmitting functions use agree on every sum; the one
  of \<^verbatim>\<open>calcularChecksum\<close> is larger by one.
\<close>

lemma derivations_compared:
  "byte_masked_not_plus_1 x = byte_not_plus_1 x \<and> byte_neg_plus_1 x = byte_not_plus_1 x + 1"
  by (simp add: byte_masked_not_plus_1_eq byte_not_plus_1_eq byte_neg_plus_1_eq)

section \<open>The claims on checksums\<close>

text \<open>
  Claim C1. For every 7-byte payload (frame bytes 1 to 7) the check byte that the inline
  code of \<^verbatim>\<open>cambiarEstado\<close>, and that of \<^verbatim>\<open>leerTiempoSoplado\<close> and
  \<^verbatim>\<open>configurarTiempoSoplado\<close>, computes equals \<open>(0 - sum) mod 256\<close>, which is
  \<open>((NOT sum) + 1) AND 0xFF\<close>, so that sum and check byte add up to 0 modulo 256. Every
  frame the program writes to the sensor carries this check byte: each function that
  calls \<^verbatim>\<open>SensorSerial.write\<close>, directly or through \<^verbatim>\<open>enviarComando\<close>, adds only such
  frames (hard-coded or built inline) to the ones written before.
\<close>

theorem transmitted_checksums:
  "(uint (checksum_cambiarEstado [start, pa, pb, pc, pd, pe, pf, pg, check])
      = spec_checksum [pa, pb, pc, pd, pe, pf, pg]
    \<and> uint (checksum_tiempoSoplado [start, pa, pb, pc, pd, pe, pf, pg, check])
      = spec_checksum [pa, pb, pc, pd, pe, pf, pg]
    \<and> spec_checksum [pa, pb, pc, pd, pe, pf, pg]
      = (NOT (sum_list (map uint [pa, pb, pc, pd, pe, pf, pg])) + 1) AND 0xFF
    \<and> (sum_list (map uint [pa, pb, pc, pd, pe, pf, pg])
        + spec_checksum [pa, pb, pc, pd, pe, pf, pg]) mod 256 = 0)
   \<and> (list_all spec_checksum_valid (sent s) \<longrightarrow>
        list_all spec_checksum_valid (sent (verificarEstado s))
      \<and> list_all spec_checksum_valid (sent (esperarEstado estadoDeseado timeoutMs s))
      \<and> list_all spec_checksum_valid (sent (leerResultado s))
      \<and> list_all spec_checksum_valid (sent (iniciarPrueba s))
      \<and> list_all spec_checksum_valid (sent (consultarUmbrales s))
      \<and> list_all spec_checksum_valid (sent (probarComunicacion disponibles s))
      \<and> list_all spec_checksum_valid (sent (cambiarEstado nuevoEstado s))
      \<and> list_all spec_checksum_valid (sent (leerTiempoSoplado s))
      \<and> list_all spec_checksum_valid (sent (configurarTiempoSoplado nuevoTiempo s)))"
proof (intro conjI impI)
  show "uint (checksum_cambiarEstado [start, pa, pb, pc, pd, pe, pf, pg, check])
      = spec_checksum [pa, pb, pc, pd, pe, pf, pg]"
    by (rule checksum_cambiarEstado_spec)
  show "uint (checksum_tiempoSoplado [start, pa, pb, pc, pd, pe, pf, pg, check])
      = spec_checksum [pa, pb, pc, pd, pe, pf, pg]"
    by (rule checksum_tiempoSoplado_spec)
  show "spec_checksum [pa, pb, pc, pd, pe, pf, pg]
      = (NOT (sum_list (map uint [pa, pb, pc, pd, pe, pf, pg])) + 1) AND 0xFF"
    by (rule spec_checksum_not)
  show "(sum_list (map uint [pa, pb, pc, pd, pe, pf, pg])
        + spec_checksum [pa, pb, pc, pd, pe, pf, pg]) mod 256 = 0"
    by (rule spec_checksum_cancels)
next
  assume v: "list_all spec_checksum_valid (sent s)"
  show "list_all spec_checksum_valid (sent (verificarEstado s))"
    using v by (simp add: sent_verificarEstado valid_hard_coded)
  show "list_all spec_checksum_valid (sent (esperarEstado estadoDeseado timeoutMs s))"
    using v by (rule valid_esperarEstado)
  show "list_all spec_checksum_valid (sent (leerResultado s))"
    using v by (simp add: sent_leerResultado valid_hard_coded)
  show "list_all spec_checksum_valid (sent (iniciarPrueba s))"
    using v by (rule valid_iniciarPrueba)
  show "list_all spec_checksum_valid (sent (consultarUmbrales s))"
    using v by (simp add: sent_consultarUmbrales valid_hard_coded)
  show "list_all spec_checksum_valid (sent (probarComunicacion disponibles s))"
    using v by (simp add: sent_probarComunicacion valid_hard_coded)
  show "list_all spec_checksum_valid (sent (cambiarEstado nuevoEstado s))"
    using v by (simp add: sent_cambiarEstado valid_cmd_cambiarEstado)
  show "list_all spec_checksum_valid (sent (leerTiempoSoplado s))"
    using v by (simp add: sent_leerTiempoSoplado valid_cmd_leerTiempoSoplado)
  show "list_all spec_checksum_valid (sent (configurarTiempoSoplado nuevoTiempo s))"
    using v by (simp add: sent_configurarTiempoSoplado valid_cmd_configurarTiempoSoplado)
qed

theorem transmitted_checksums_witness:
  "list_all spec_checksum_valid [cmdEstado]
   \<and> list_all spec_checksum_valid
        (sent (cambiarEstado STATUS_PREHEATING
           \<lparr>currentStatus = STATUS_IDLE, resultAvailable = False, sent = [cmdEstado],
             console = [], incoming = [], rounds = []\<rparr>))
   \<and> uint (checksum_tiempoSoplado [0xFF, 0x01, 0x89, 0x07, 0, 0, 0, 0, 0]) = 0x6F"
proof -
  have h: "list_all spec_checksum_valid [cmdEstado]"
    by (simp add: spec_checksum_valid_def spec_checksum_def cmdEstado_def)
  show ?thesis
    using h transmitted_checksums [where start = "0xFF" and pa = "0x01" and pb = "0x89"
        and pc = "0x07" and pd = 0 and pe = 0 and pf = 0 and pg = 0 and check = 0
        and s = "\<lparr>currentStatus = STATUS_IDLE, resultAvailable = False, sent = [cmdEstado],
          console = [], incoming = [], rounds = []\<rparr>" and nuevoEstado = STATUS_PREHEATING]
    by (simp add: spec_checksum_def)
qed

text \<open>
  Claim C3. The three derivations are claimed to give the same byte for every sum. On
  the payload of the hard-coded status query, \<open>01 85 00 00 00 00 00\<close>,
  \<^verbatim>\<open>calcularChecksum\<close> returns 0x7B, while \<^verbatim>\<open>(byte)((~sum) + 1)\<close> and
  \<^verbatim>\<open>(byte)(~(sum & 0xFF) + 1)\<close> both give 0x7A, the check byte that the hard-coded frame
  \<^verbatim>\<open>cmdEstado\<close> carries.
\<close>

theorem calcularChecksum_off_by_one:
  "calcularChecksum [0x01, 0x85, 0x00, 0x00, 0x00, 0x00, 0x00] 7 = 0x7B
   \<and> byte_not_plus_1 (sumar [0x01, 0x85, 0x00, 0x00, 0x00, 0x00, 0x00] 0 7) = 0x7A
   \<and> byte_masked_not_plus_1 (sumar [0x01, 0x85, 0x00, 0x00, 0x00, 0x00, 0x00] 0 7) = 0x7A
   \<and> cmdEstado ! 8 = 0x7A"
  by (simp add: calcularChecksum_def byte_neg_plus_1_def byte_not_plus_1_def
      byte_masked_not_plus_1_def sumar_def upt_0_7 cmdEstado_def)

section \<open>The reader on whole streams\<close>

lemma bucle_drops_garbage:
  "\<not> startByteFound l \<Longrightarrow>
   leerRespuesta_bucle n (map Some bs) l
     = leerRespuesta_bucle n (map Some (dropWhile (\<lambda>b. b \<noteq> 0xFF) bs)) l"
  by (induction bs) simp_all

lemma leerRespuesta_drops_garbage:
  "leerRespuesta buffer0 n (s\<lparr>incoming := ps # later\<rparr>)
     = leerRespuesta buffer0 n
         (s\<lparr>incoming := map Some (dropWhile (\<lambda>b. b \<noteq> 0xFF) (bytes_of ps)) # later\<rparr>)"
proof -
  let ?l0 = "\<lparr>buffer = buffer0, bytesRead = 0, startByteFound = False\<rparr>"
  have "leerRespuesta_bucle n ps ?l0
      = leerRespuesta_bucle n (map Some (dropWhile (\<lambda>b. b \<noteq> 0xFF) (bytes_of ps))) ?l0"
    by (subst bucle_bytes_of, subst bucle_drops_garbage) simp_all
  then show ?thesis
    by (simp add: leerRespuesta_def next_incoming_def)
qed

lemma split_at_start:
  fixes bs :: "byte list"
  defines "d \<equiv> dropWhile (\<lambda>b. b \<noteq> 0xFF) bs"
  shows "bs = takeWhile (\<lambda>b. b \<noteq> 0xFF) bs @ d" "0xFF \<notin> set (takeWhile (\<lambda>b. b \<noteq> 0xFF) bs)"
    "d \<noteq> [] \<Longrightarrow> d = 0xFF # tl d" "d = [] \<longleftrightarrow> 0xFF \<notin> set bs"
proof -
  show "bs = takeWhile (\<lambda>b. b \<noteq> 0xFF) bs @ d" by (simp add: d_def)
  show "0xFF \<notin> set (takeWhile (\<lambda>b. b \<noteq> 0xFF) bs)" by (auto dest: set_takeWhileD)
  show "d \<noteq> [] \<Longrightarrow> d = 0xFF # tl d"
    using hd_dropWhile [of "\<lambda>b. b \<noteq> 0xFF" bs] by (cases d) (auto simp: d_def)
  show "d = [] \<longleftrightarrow> 0xFF \<notin> set bs" by (auto simp: d_def)
qed

lemma bytes_of_idle: "bytes_of (replicate k None) = []"
  by (induction k) simp_all

lemma leerRespuesta_timeout:
  fixes ps :: "poll list"
  defines "d \<equiv> dropWhile (\<lambda>b. b \<noteq> 0xFF) (bytes_of ps)"
  assumes "length buf = 9" "length d < 9"
  shows "leerRespuesta buf 9 (s\<lparr>incoming := ps # later\<rparr>) =
           (if d = [] then
              ((False, buf), s\<lparr>console := console s @ [TimeoutRespuesta], incoming := later\<rparr>)
            else
              ((False, d @ drop (length d) buf),
               s\<lparr>console := console s @ [TimeoutRespuesta, BytesParciales (length d), Respuesta d],
                 incoming := later\<rparr>))"
proof (cases "d = []")
  case True
  then have "0xFF \<notin> set (bytes_of ps)"
    using split_at_start(4) [of "bytes_of ps"] by (simp add: d_def)
  then have "leerRespuesta buf 9 (s\<lparr>incoming := ps # later\<rparr>)
      = ((False, buf), (s\<lparr>incoming := ps # later\<rparr>)
           \<lparr>console := console (s\<lparr>incoming := ps # later\<rparr>) @ [TimeoutRespuesta],
             incoming := later\<rparr>)"
    by (intro leerRespuesta_nodata [where ps = ps]) simp_all
  with True show ?thesis by simp
next
  case False
  let ?g = "takeWhile (\<lambda>b. b \<noteq> 0xFF) (bytes_of ps)"
  from False have d: "d = 0xFF # tl d"
    using split_at_start(3) [of "bytes_of ps"] by (simp add: d_def)
  have b: "bytes_of ps = ?g @ 0xFF # tl d"
    using split_at_start(1) [of "bytes_of ps"] d by (simp add: d_def)
  have g: "0xFF \<notin> set ?g" by (rule split_at_start(2))
  have l: "length (tl d) < 8" using assms(3) False by (cases d) simp_all
  have "leerRespuesta buf 9 (s\<lparr>incoming := ps # later\<rparr>)
      = ((False, 0xFF # tl d @ drop (Suc (length (tl d))) buf),
         (s\<lparr>incoming := ps # later\<rparr>)
           \<lparr>console := console (s\<lparr>incoming := ps # later\<rparr>) @
              [TimeoutRespuesta, BytesParciales (Suc (length (tl d))), Respuesta (0xFF # tl d)],
             incoming := later\<rparr>)"
    using assms(2) g l b by (intro leerRespuesta_partial [where g = ?g and ps = ps]) simp_all
  moreover have "Suc (length (tl d)) = length d" using False by (cases d) simp_all
  ultimately show ?thesis using False d by (simp del: dropWhile_eq_Nil_conv)
qed

text \<open>The content of the caller's array before the call plays no part in what the callers see.\<close>

lemma leerRespuesta_initial_buffer:
  assumes "length b1 = 9" "length b2 = 9"
  shows "snd (leerRespuesta b1 9 s) = snd (leerRespuesta b2 9 s)
         \<and> fst (fst (leerRespuesta b1 9 s)) = fst (fst (leerRespuesta b2 9 s))
         \<and> (fst (fst (leerRespuesta b1 9 s)) \<longrightarrow>
              snd (fst (leerRespuesta b1 9 s)) = snd (fst (leerRespuesta b2 9 s)))"
proof (cases "incoming s")
  case Nil
  then show ?thesis by (simp add: leerRespuesta_silence)
next
  case (Cons ps later)
  then have s: "s = s\<lparr>incoming := ps # later\<rparr>" by simp
  let ?d = "dropWhile (\<lambda>b. b \<noteq> 0xFF) (bytes_of ps)"
  let ?g = "takeWhile (\<lambda>b. b \<noteq> 0xFF) (bytes_of ps)"
  show ?thesis
  proof (cases "length ?d < 9")
    case True
    have "\<And>b. length b = 9 \<Longrightarrow> leerRespuesta b 9 s =
           (if ?d = [] then
              ((False, b), s\<lparr>console := console s @ [TimeoutRespuesta], incoming := later\<rparr>)
            else
              ((False, ?d @ drop (length ?d) b),
               s\<lparr>console := console s @ [TimeoutRespuesta, BytesParciales (length ?d), Respuesta ?d],
                 incoming := later\<rparr>))"
      using leerRespuesta_timeout [OF _ True, where s = s and later = later] s by simp
    with assms show ?thesis by (simp del: dropWhile_eq_Nil_conv)
  next
    case False
    then have d: "?d \<noteq> []" by (cases ?d) simp_all
    have "bytes_of ps = ?g @ take 9 ?d @ drop 9 ?d" by simp
    moreover have "take 9 ?d ! 0 = 0xFF"
    proof -
      obtain t where "?d = 0xFF # t" using split_at_start(3) [OF d] by blast
      then show ?thesis by simp
    qed
    moreover have "length (take 9 ?d) = 9" using False by simp
    ultimately have "\<And>b. length b = 9 \<Longrightarrow> leerRespuesta b 9 s =
        ((True, take 9 ?d), s\<lparr>console := console s @ [BytesLeidos 9, Respuesta (take 9 ?d)], incoming := later\<rparr>)"
      using Cons split_at_start(2) [of "bytes_of ps"]
      by (intro leerRespuesta_frame [where g = ?g and rest = "drop 9 ?d" and ps = ps]) simp_all
    with assms show ?thesis by simp
  qed
qed

section \<open>The claims on the frame reader\<close>

text \<open>
  Claim C6, amended. For every stream a call of \<^verbatim>\<open>leerRespuesta\<close> is offered, the bytes
  before the first 0xFF are discarded: the call does what it does on the stream that
  begins at the first 0xFF. When the stream is garbage \<open>g\<close>, none of whose bytes is
  0xFF, followed by nine bytes \<open>f\<close> that begin with 0xFF, all offered before the
  deadline (idle passes and later bytes \<open>rest\<close> allowed), the call returns \<^verbatim>\<open>true\<close> with
  exactly \<open>f\<close> in the array. The condition on the garbage is what the claim leaves out.
\<close>

theorem leerRespuesta_resynchronises:
  assumes "length buf = 9"
  shows "leerRespuesta buf 9 (s\<lparr>incoming := ps # later\<rparr>)
           = leerRespuesta buf 9
               (s\<lparr>incoming := map Some (dropWhile (\<lambda>b. b \<noteq> 0xFF) (bytes_of ps)) # later\<rparr>)
         \<and> (0xFF \<notin> set g \<and> length f = 9 \<and> f ! 0 = 0xFF \<and> bytes_of ps = g @ f @ rest \<longrightarrow>
              leerRespuesta buf 9 (s\<lparr>incoming := ps # later\<rparr>)
                = ((True, f),
                   s\<lparr>console := console s @ [BytesLeidos 9, Respuesta f], incoming := later\<rparr>))"
proof (intro conjI impI)
  show "leerRespuesta buf 9 (s\<lparr>incoming := ps # later\<rparr>)
           = leerRespuesta buf 9
               (s\<lparr>incoming := map Some (dropWhile (\<lambda>b. b \<noteq> 0xFF) (bytes_of ps)) # later\<rparr>)"
    by (rule leerRespuesta_drops_garbage)
next
  assume h: "0xFF \<notin> set g \<and> length f = 9 \<and> f ! 0 = 0xFF \<and> bytes_of ps = g @ f @ rest"
  have "leerRespuesta buf 9 (s\<lparr>incoming := ps # later\<rparr>)
      = ((True, f), (s\<lparr>incoming := ps # later\<rparr>)
           \<lparr>console := console (s\<lparr>incoming := ps # later\<rparr>) @ [BytesLeidos 9, Respuesta f],
             incoming := later\<rparr>)"
    using assms h by (intro leerRespuesta_frame [where g = g and rest = rest and ps = ps]) simp_all
  then show "leerRespuesta buf 9 (s\<lparr>incoming := ps # later\<rparr>)
                = ((True, f),
                   s\<lparr>console := console s @ [BytesLeidos 9, Respuesta f], incoming := later\<rparr>)"
    by simp
qed

theorem leerRespuesta_resynchronises_witness:
  "leerRespuesta response0 9
     \<lparr>currentStatus = STATUS_IDLE, resultAvailable = False, sent = [cmdEstado], console = [],
       incoming = [[Some 0x12, None, Some 0x00, Some 0xFF, Some 0x85, None, Some 0x31, Some 0x00,
                    Some 0x00, Some 0x00, Some 0x00, Some 0x00, Some 0x4A, None, Some 0x99]],
       rounds = []\<rparr>
   = ((True, [0xFF, 0x85, 0x31, 0x00, 0x00, 0x00, 0x00, 0x00, 0x4A]),
      \<lparr>currentStatus = STATUS_IDLE, resultAvailable = False, sent = [cmdEstado],
        console = [BytesLeidos 9, Respuesta [0xFF, 0x85, 0x31, 0x00, 0x00, 0x00, 0x00, 0x00, 0x4A]],
        incoming = [], rounds = []\<rparr>)"
  using leerRespuesta_resynchronises [where buf = response0
      and s = "\<lparr>currentStatus = STATUS_IDLE, resultAvailable = False, sent = [cmdEstado],
                console = [], incoming = [], rounds = []\<rparr>"
      and ps = "[Some 0x12, None, Some 0x00, Some 0xFF, Some 0x85, None, Some 0x31, Some 0x00,
                 Some 0x00, Some 0x00, Some 0x00, Some 0x00, Some 0x4A, None, Some 0x99]"
      and later = "[]" and g = "[0x12, 0x00]"
      and f = "[0xFF, 0x85, 0x31, 0x00, 0x00, 0x00, 0x00, 0x00, 0x4A]" and rest = "[0x99]", THEN conjunct2]
  by (simp add: response0_def)

text \<open>
  The claim C6 as stated fails when the garbage holds a 0xFF. The garbage \<open>12 FF 34\<close>
  followed by the valid frame \<open>FF 85 31 00 00 00 00 00 4A\<close> is read as
  \<open>FF 34 FF 85 31 00 00 00 00\<close>: the call returns \<^verbatim>\<open>true\<close>, and the array does not hold the
  frame.
\<close>

theorem leerRespuesta_resynchronises_counterexample:
  "spec_checksum_valid [0xFF, 0x85, 0x31, 0x00, 0x00, 0x00, 0x00, 0x00, 0x4A]
   \<and> fst (leerRespuesta response0 9
        \<lparr>currentStatus = STATUS_IDLE, resultAvailable = False, sent = [cmdEstado], console = [],
          incoming = [[Some 0x12, Some 0xFF, Some 0x34, Some 0xFF, Some 0x85, Some 0x31, Some 0x00,
                       Some 0x00, Some 0x00, Some 0x00, Some 0x00, Some 0x4A]],
          rounds = []\<rparr>)
     = (True, [0xFF, 0x34, 0xFF, 0x85, 0x31, 0x00, 0x00, 0x00, 0x00])
   \<and> fst (leerRespuesta response0 9
        \<lparr>currentStatus = STATUS_IDLE, resultAvailable = False, sent = [cmdEstado], console = [],
          incoming = [[Some 0x12, Some 0xFF, Some 0x34, Some 0xFF, Some 0x85, Some 0x31, Some 0x00,
                       Some 0x00, Some 0x00, Some 0x00, Some 0x00, Some 0x4A]],
          rounds = []\<rparr>)
     \<noteq> (True, [0xFF, 0x85, 0x31, 0x00, 0x00, 0x00, 0x00, 0x00, 0x4A])"
proof -
  have v: "spec_checksum_valid [0xFF, 0x85, 0x31, 0x00, 0x00, 0x00, 0x00, 0x00, 0x4A]"
    by (simp add: spec_checksum_valid_def spec_checksum_def)
  have "leerRespuesta response0 9
        \<lparr>currentStatus = STATUS_IDLE, resultAvailable = False, sent = [cmdEstado], console = [],
          incoming = [[Some 0x12, Some 0xFF, Some 0x34, Some 0xFF, Some 0x85, Some 0x31, Some 0x00,
                       Some 0x00, Some 0x00, Some 0x00, Some 0x00, Some 0x4A]],
          rounds = []\<rparr>
     = ((True, [0xFF, 0x34, 0xFF, 0x85, 0x31, 0x00, 0x00, 0x00, 0x00]),
        \<lparr>currentStatus = STATUS_IDLE, resultAvailable = False, sent = [cmdEstado],
          console = [BytesLeidos 9, Respuesta [0xFF, 0x34, 0xFF, 0x85, 0x31, 0x00, 0x00, 0x00, 0x00]],
          incoming = [], rounds = []\<rparr>)"
    by (subst leerRespuesta_frame [where g = "[0x12]" and rest = "[0x00, 0x4A]" and later = "[]"
          and f = "[0xFF, 0x34, 0xFF, 0x85, 0x31, 0x00, 0x00, 0x00, 0x00]"
          and ps = "[Some 0x12, Some 0xFF, Some 0x34, Some 0xFF, Some 0x85, Some 0x31, Some 0x00,
                     Some 0x00, Some 0x00, Some 0x00, Some 0x00, Some 0x4A]"])
       (simp_all add: response0_def)
  with v show ?thesis by simp
qed

text \<open>
  Claim C7. When the deadline passes before nine bytes from the first 0xFF on have been
  read, \<^verbatim>\<open>leerRespuesta\<close> returns \<^verbatim>\<open>false\<close> and reports the failure by whether a start
  marker was seen: if a 0xFF was seen, it prints the timeout, then the number of bytes
  collected (the start marker and what followed it) and those bytes; if none was seen,
  it prints the timeout only. A start marker and four more bytes, then silence, give
  the count 5.
\<close>

theorem leerRespuesta_timeout_classes:
  assumes "length buf = 9"
    and "length (dropWhile (\<lambda>b. b \<noteq> 0xFF) (bytes_of ps)) < 9"
  shows "fst (fst (leerRespuesta buf 9 (s\<lparr>incoming := ps # later\<rparr>))) = False
         \<and> console (snd (leerRespuesta buf 9 (s\<lparr>incoming := ps # later\<rparr>)))
             = console s @
                 (if 0xFF \<in> set (bytes_of ps)
                  then [TimeoutRespuesta,
                        BytesParciales (length (dropWhile (\<lambda>b. b \<noteq> 0xFF) (bytes_of ps))),
                        Respuesta (dropWhile (\<lambda>b. b \<noteq> 0xFF) (bytes_of ps))]
                  else [TimeoutRespuesta])
         \<and> console (snd (leerRespuesta buf 9
               (s\<lparr>incoming := (map Some [0xFF, a, b, c, d] @ replicate k None) # later\<rparr>)))
             = console s @ [TimeoutRespuesta, BytesParciales 5, Respuesta [0xFF, a, b, c, d]]"
proof -
  have "console (snd (leerRespuesta buf 9
               (s\<lparr>incoming := (map Some [0xFF, a, b, c, d] @ replicate k None) # later\<rparr>)))
             = console s @ [TimeoutRespuesta, BytesParciales 5, Respuesta [0xFF, a, b, c, d]]"
    using assms(1) by (subst leerRespuesta_timeout) (simp_all add: bytes_of_idle)
  moreover have "fst (fst (leerRespuesta buf 9 (s\<lparr>incoming := ps # later\<rparr>))) = False"
    using assms by (subst leerRespuesta_timeout) simp_all
  moreover have "console (snd (leerRespuesta buf 9 (s\<lparr>incoming := ps # later\<rparr>)))
             = console s @
                 (if 0xFF \<in> set (bytes_of ps)
                  then [TimeoutRespuesta,
                        BytesParciales (length (dropWhile (\<lambda>b. b \<noteq> 0xFF) (bytes_of ps))),
                        Respuesta (dropWhile (\<lambda>b. b \<noteq> 0xFF) (bytes_of ps))]
                  else [TimeoutRespuesta])"
    using assms by (subst leerRespuesta_timeout) auto
  ultimately show ?thesis by blast
qed

theorem leerRespuesta_timeout_classes_witness:
  "console (snd (leerRespuesta response0 9
      \<lparr>currentStatus = STATUS_IDLE, resultAvailable = False, sent = [cmdEstado], console = [],
        incoming = [[Some 0x12, Some 0xFF, Some 0x01, Some 0x02, None, Some 0x03, Some 0x04, None, None]],
        rounds = []\<rparr>))
     = [TimeoutRespuesta, BytesParciales 5, Respuesta [0xFF, 0x01, 0x02, 0x03, 0x04]]
   \<and> console (snd (leerRespuesta response0 9
      \<lparr>currentStatus = STATUS_IDLE, resultAvailable = False, sent = [cmdEstado], console = [],
        incoming = [[Some 0x12, None, Some 0x13]], rounds = []\<rparr>))
     = [TimeoutRespuesta]"
  using
    leerRespuesta_timeout_classes [where buf = response0
      and s = "\<lparr>currentStatus = STATUS_IDLE, resultAvailable = False, sent = [cmdEstado],
                console = [], incoming = [], rounds = []\<rparr>"
      and ps = "[Some 0x12, Some 0xFF, Some 0x01, Some 0x02, None, Some 0x03, Some 0x04, None, None]"
      and later = "[]"]
    leerRespuesta_timeout_classes [where buf = response0
      and s = "\<lparr>currentStatus = STATUS_IDLE, resultAvailable = False, sent = [cmdEstado],
                console = [], incoming = [], rounds = []\<rparr>"
      and ps = "[Some 0x12, None, Some 0x13]" and later = "[]"]
  by (simp add: response0_def)



section \<open>The commands on a response that arrives whole\<close>

lemma length_response0: "length response0 = 9"
  by (simp add: response0_def)

lemma verificarEstado_frame:
  assumes "length r = 9" "r ! 0 = 0xFF" "0xFF \<notin> set g" "bytes_of ps = g @ r @ rest"
  shows "verificarEstado (s\<lparr>incoming := ps # later\<rparr>) =
     (if r ! 1 = 0x85 then
        s\<lparr>currentStatus := r ! 2,
          resultAvailable := (if r ! 2 = STATUS_READ_RESULT then True else resultAvailable s),
          sent := sent s @ [cmdEstado],
          console := console s @ [BytesLeidos 9, Respuesta r, Estado (estado_de (r ! 2))],
          incoming := later\<rparr>
      else
        s\<lparr>sent := sent s @ [cmdEstado],
          console := console s @ [BytesLeidos 9, Respuesta r],
          incoming := later\<rparr>)"
proof -
  have fr: "\<And>b s'. length b = 9 \<Longrightarrow> incoming s' = ps # later \<Longrightarrow>
      leerRespuesta b 9 s' = ((True, r), s'\<lparr>console := console s' @ [BytesLeidos 9, Respuesta r], incoming := later\<rparr>)"
    using assms by (intro leerRespuesta_frame [where g = g and rest = rest]) auto
  show ?thesis
    using assms(2)
    by (simp add: verificarEstado_def enviarComando_def fr length_response0 length_cmd imprimir_def)
qed

lemma cambiarEstado_frame:
  assumes "length r = 9" "r ! 0 = 0xFF" "0xFF \<notin> set g" "bytes_of ps = g @ r @ rest"
  shows "cambiarEstado e (s\<lparr>incoming := ps # later\<rparr>) =
     s\<lparr>sent := sent s @ [cmd_cambiarEstado e],
       console := console s @
         [IntentandoCambiar e, ComandoEnviado (cmd_cambiarEstado e), BytesLeidos 9, Respuesta r,
          (if r ! 1 = 0x87 then (if r ! 2 = 0x01 then CambioExitoso e else CambioRechazado (r ! 2))
           else RespuestaIncorrectaCambio)],
       incoming := later\<rparr>"
proof -
  have fr: "\<And>b s'. length b = 9 \<Longrightarrow> incoming s' = ps # later \<Longrightarrow>
      leerRespuesta b 9 s' = ((True, r), s'\<lparr>console := console s' @ [BytesLeidos 9, Respuesta r], incoming := later\<rparr>)"
    using assms by (intro leerRespuesta_frame [where g = g and rest = rest]) auto
  show ?thesis
    using assms(2)
    by (simp add: cambiarEstado_def fr length_response0 length_cmd imprimir_def Let_def)
qed

lemma unat_up: "unat (ucast (b::byte) :: cint) = unat b"
proof -
  have "unat b < 2 ^ 8" using unsigned_less [of b] by simp
  then have "unat b < 2 ^ 32" by simp
  then show ?thesis by (simp add: unsigned_ucast_eq take_bit_nat_eq_self)
qed

lemma alcohol_value:
  "unat (push_bit 8 (ucast (hi::byte)) OR ucast (lo::byte) :: cint) = 256 * unat hi + unat lo"
proof -
  have d: "push_bit 8 (ucast hi :: cint) OR ucast lo = push_bit 8 (ucast hi) + ucast lo"
    by (rule disjunctive_add_eq_or [symmetric]) (auto simp add: bit_eq_iff bit_simps dest: bit_imp_le_length)
  have "unat hi < 256" "unat lo < 256"
    using unsigned_less [of hi] unsigned_less [of lo] by simp_all
  then show ?thesis
    unfolding d
    by (simp add: unat_word_ariths push_bit_eq_mult unat_up)
qed

lemma leerResultado_frame:
  assumes "length r = 9" "r ! 0 = 0xFF" "0xFF \<notin> set g" "bytes_of ps = g @ r @ rest"
  shows "leerResultado (s\<lparr>incoming := ps # later\<rparr>) =
     s\<lparr>sent := sent s @ [cmdLeerResultado],
       console := console s @ [BytesLeidos 9, Respuesta r] @
         (if r ! 1 = 0x86
          then [ContenidoAlcohol (push_bit 8 (ucast (r ! 2)) OR ucast (r ! 3)),
                EstadoAlarma (alarma_de (r ! 7))]
          else [RespuestaInvalidaResultado]),
       incoming := later\<rparr>"
proof -
  have fr: "\<And>b s'. length b = 9 \<Longrightarrow> incoming s' = ps # later \<Longrightarrow>
      leerRespuesta b 9 s' = ((True, r), s'\<lparr>console := console s' @ [BytesLeidos 9, Respuesta r], incoming := later\<rparr>)"
    using assms by (intro leerRespuesta_frame [where g = g and rest = rest]) auto
  show ?thesis
    using assms(2)
    by (simp add: leerResultado_def enviarComando_def fr length_response0 length_cmd imprimir_def Let_def)
qed

lemma configurarTiempoSoplado_frame:
  assumes "length r = 9" "r ! 0 = 0xFF" "0xFF \<notin> set g" "bytes_of ps = g @ r @ rest"
    and "\<not> (t < 1 \<or> 10 < t)"
  shows "configurarTiempoSoplado t (s\<lparr>incoming := ps # later\<rparr>) =
     s\<lparr>sent := sent s @ [cmd_configurarTiempoSoplado t],
       console := console s @
         [ConfigurandoTiempo t, Enviando (cmd_configurarTiempoSoplado t), BytesLeidos 9, Respuesta r] @
         (if r ! 1 = 0x89 then (if r ! 2 = 0x01 then [ConfiguracionExitosa] else [ConfiguracionRechazada])
          else [RespuestaIncorrectaConfiguracion, Respuesta r]),
       incoming := later\<rparr>"
proof -
  have fr: "\<And>b s'. length b = 9 \<Longrightarrow> incoming s' = ps # later \<Longrightarrow>
      leerRespuesta b 9 s' = ((True, r), s'\<lparr>console := console s' @ [BytesLeidos 9, Respuesta r], incoming := later\<rparr>)"
    using assms by (intro leerRespuesta_frame [where g = g and rest = rest]) auto
  show ?thesis
    using assms(1,2,5)
    by (simp add: configurarTiempoSoplado_def fr length_cmd imprimir_def imprimirRespuesta_def Let_def)
qed

lemma iniciarPrueba_consulta_silence:
  "incoming s = [] \<Longrightarrow>
   iniciarPrueba_consulta s
     = s\<lparr>sent := sent s @ [cmdEstado], console := console s @ [IniciandoPrueba, TimeoutRespuesta]\<rparr>"
  by (simp add: iniciarPrueba_consulta_def Let_def imprimir_def enviarComando_def
      leerRespuesta_silence length_cmd)

section \<open>The claims on the commands\<close>

text \<open>
  Claim C2, amended. The claim says that decoding also verifies the checksum and throws
  a frame with a wrong check byte away. No function of the program looks at byte 8 of a
  response. What holds: for every 9-byte response \<open>r\<close> that the reader delivers (its byte
  0 is 0xFF), decoding checks the start byte and the command echo only.
  \<^verbatim>\<open>verificarEstado\<close> takes byte 2 as the new status exactly when byte 1 is 0x85, and
  \<^verbatim>\<open>cambiarEstado\<close> reports success exactly when byte 1 is 0x87 and byte 2 is 0x01,
  whatever the check byte is.
\<close>

theorem decoding_checks_start_and_echo_only:
  assumes "length r = 9" "r ! 0 = 0xFF" "0xFF \<notin> set g" "bytes_of ps = g @ r @ rest"
  shows "currentStatus (verificarEstado (s\<lparr>incoming := ps # later\<rparr>))
           = (if r ! 1 = 0x85 then r ! 2 else currentStatus s)
         \<and> console (cambiarEstado nuevoEstado (s\<lparr>incoming := ps # later\<rparr>))
           = console s @
               [IntentandoCambiar nuevoEstado, ComandoEnviado (cmd_cambiarEstado nuevoEstado),
                BytesLeidos 9, Respuesta r,
                (if r ! 1 = 0x87
                 then (if r ! 2 = 0x01 then CambioExitoso nuevoEstado else CambioRechazado (r ! 2))
                 else RespuestaIncorrectaCambio)]"
  using verificarEstado_frame [OF assms, where s = s and later = later]
    cambiarEstado_frame [OF assms, where e = nuevoEstado and s = s and later = later]
  by simp

theorem decoding_checks_start_and_echo_only_witness:
  "\<not> spec_checksum_valid [0xFF, 0x87, 0x01, 0x00, 0x00, 0x00, 0x00, 0x00, 0x55]
   \<and> currentStatus (verificarEstado
        \<lparr>currentStatus = STATUS_IDLE, resultAvailable = False, sent = [], console = [],
          incoming = [[Some 0x00, Some 0xFF, Some 0x87, Some 0x01, Some 0x00, Some 0x00, Some 0x00,
                       Some 0x00, Some 0x00, Some 0x55]],
          rounds = []\<rparr>) = STATUS_IDLE
   \<and> console (cambiarEstado STATUS_PREHEATING
        \<lparr>currentStatus = STATUS_IDLE, resultAvailable = False, sent = [], console = [],
          incoming = [[Some 0x00, Some 0xFF, Some 0x87, Some 0x01, Some 0x00, Some 0x00, Some 0x00,
                       Some 0x00, Some 0x00, Some 0x55]],
          rounds = []\<rparr>)
     = [IntentandoCambiar STATUS_PREHEATING, ComandoEnviado (cmd_cambiarEstado STATUS_PREHEATING),
        BytesLeidos 9, Respuesta [0xFF, 0x87, 0x01, 0x00, 0x00, 0x00, 0x00, 0x00, 0x55],
        CambioExitoso STATUS_PREHEATING]"
proof -
  have "\<not> spec_checksum_valid [0xFF, 0x87, 0x01, 0x00, 0x00, 0x00, 0x00, 0x00, 0x55]"
    by (simp add: spec_checksum_valid_def spec_checksum_def)
  then show ?thesis
    using decoding_checks_start_and_echo_only [where g = "[0x00]" and rest = "[]"
        and r = "[0xFF, 0x87, 0x01, 0x00, 0x00, 0x00, 0x00, 0x00, 0x55]"
        and ps = "[Some 0x00, Some 0xFF, Some 0x87, Some 0x01, Some 0x00, Some 0x00, Some 0x00,
                       Some 0x00, Some 0x00, Some 0x55]"
        and later = "[]" and nuevoEstado = STATUS_PREHEATING
        and s = "\<lparr>currentStatus = STATUS_IDLE, resultAvailable = False, sent = [], console = [],
          incoming = [], rounds = []\<rparr>"]
    by simp
qed

text \<open>
  The claim C2 as stated fails: a status response whose check byte is wrong (0x00 where
  0x47 is due) is accepted, and \<open>currentStatus\<close> becomes its byte 2.
\<close>

theorem checksum_not_verified_counterexample:
  "\<not> spec_checksum_valid [0xFF, 0x85, 0x34, 0x00, 0x00, 0x00, 0x00, 0x00, 0x00]
   \<and> currentStatus (verificarEstado
        \<lparr>currentStatus = STATUS_IDLE, resultAvailable = False, sent = [], console = [],
          incoming = [[Some 0xFF, Some 0x85, Some 0x34, Some 0x00, Some 0x00, Some 0x00, Some 0x00,
                       Some 0x00, Some 0x00]],
          rounds = []\<rparr>) = STATUS_BLOWING"
proof -
  have "\<not> spec_checksum_valid [0xFF, 0x85, 0x34, 0x00, 0x00, 0x00, 0x00, 0x00, 0x00]"
    by (simp add: spec_checksum_valid_def spec_checksum_def)
  moreover have "currentStatus (verificarEstado
        (\<lparr>currentStatus = STATUS_IDLE, resultAvailable = False, sent = [], console = [],
          incoming = [], rounds = []\<rparr>
         \<lparr>incoming := [Some 0xFF, Some 0x85, Some 0x34, Some 0x00, Some 0x00, Some 0x00, Some 0x00,
                       Some 0x00, Some 0x00] # []\<rparr>)) = STATUS_BLOWING"
    by (subst verificarEstado_frame [where g = "[]" and rest = "[]"
          and r = "[0xFF, 0x85, 0x34, 0x00, 0x00, 0x00, 0x00, 0x00, 0x00]"])
       (simp_all add: STATUS_BLOWING_def)
  ultimately show ?thesis by simp
qed

text \<open>
  Claim C9. For every response \<open>r\<close> that \<^verbatim>\<open>leerResultado\<close> accepts (nine bytes, start byte
  0xFF, command echo 0x86), the concentration printed is \<^verbatim>\<open>(r[2] << 8) | r[3]\<close>, whose value
  is \<open>256 * r[2] + r[3]\<close>, and the alarm printed is decided by byte 7: no alcohol for 0x00,
  drinking (\<open>Bebido\<close>) for 0x01, drunk (\<open>Ebrio\<close>) for 0x02, unknown with the code for any
  other byte. In the scenario of the claim, bytes 2 and 3 being 0x00 and 0x32 and byte 7
  being 0x01, the concentration is 50 and the alarm is \<open>Bebido\<close>.
\<close>

theorem leerResultado_decodes:
  assumes "length r = 9" "r ! 0 = 0xFF" "r ! 1 = 0x86" "0xFF \<notin> set g" "bytes_of ps = g @ r @ rest"
  shows "console (leerResultado (s\<lparr>incoming := ps # later\<rparr>))
           = console s @
               [BytesLeidos 9, Respuesta r,
                ContenidoAlcohol (push_bit 8 (ucast (r ! 2)) OR ucast (r ! 3)),
                EstadoAlarma
                  (if r ! 7 = 0x00 then SinAlcohol
                   else if r ! 7 = 0x01 then Bebido
                   else if r ! 7 = 0x02 then Ebrio
                   else AlarmaDesconocida (r ! 7))]
         \<and> unat (push_bit 8 (ucast (r ! 2)) OR ucast (r ! 3) :: cint) = 256 * unat (r ! 2) + unat (r ! 3)
         \<and> console (leerResultado
               (s\<lparr>incoming := [Some 0xFF, Some 0x86, Some 0x00, Some 0x32, Some x, Some y, Some z,
                                Some 0x01, Some check] # later\<rparr>))
           = console s @
               [BytesLeidos 9, Respuesta [0xFF, 0x86, 0x00, 0x32, x, y, z, 0x01, check],
                ContenidoAlcohol 50, EstadoAlarma Bebido]"
proof -
  have "console (leerResultado
               (s\<lparr>incoming := [Some 0xFF, Some 0x86, Some 0x00, Some 0x32, Some x, Some y, Some z,
                                Some 0x01, Some check] # later\<rparr>))
           = console s @
               [BytesLeidos 9, Respuesta [0xFF, 0x86, 0x00, 0x32, x, y, z, 0x01, check],
                ContenidoAlcohol 50, EstadoAlarma Bebido]"
    by (subst leerResultado_frame [where g = "[]" and rest = "[]"
          and r = "[0xFF, 0x86, 0x00, 0x32, x, y, z, 0x01, check]"])
       (simp_all add: alarma_de_def alarm_defs)
  then show ?thesis
    using leerResultado_frame [OF assms(1,2,4,5), where s = s and later = later] assms(3)
    by (simp add: alcohol_value alarma_de_def alarm_defs)
qed

theorem leerResultado_decodes_witness:
  "console (leerResultado
      \<lparr>currentStatus = STATUS_READ_RESULT, resultAvailable = True, sent = [], console = [],
        incoming = [[Some 0xFF, Some 0x86, Some 0x00, Some 0x32, Some 0x00, Some 0x00, Some 0x00,
                     Some 0x01, Some 0x47]],
        rounds = []\<rparr>)
     = [BytesLeidos 9, Respuesta [0xFF, 0x86, 0x00, 0x32, 0x00, 0x00, 0x00, 0x01, 0x47],
        ContenidoAlcohol 50, EstadoAlarma Bebido]
   \<and> console (leerResultado
      \<lparr>currentStatus = STATUS_READ_RESULT, resultAvailable = True, sent = [], console = [],
        incoming = [[Some 0x00, Some 0xFF, Some 0x86, Some 0x01, Some 0x02, Some 0x00, Some 0x00,
                     Some 0x00, Some 0x02, Some 0x75]],
        rounds = []\<rparr>)
     = [BytesLeidos 9, Respuesta [0xFF, 0x86, 0x01, 0x02, 0x00, 0x00, 0x00, 0x02, 0x75],
        ContenidoAlcohol 258, EstadoAlarma Ebrio]
   \<and> console (leerResultado
      \<lparr>currentStatus = STATUS_READ_RESULT, resultAvailable = True, sent = [], console = [],
        incoming = [[Some 0xFF, Some 0x86, Some 0x00, Some 0x05, Some 0x00, Some 0x00, Some 0x00,
                     Some 0x00, Some 0x75]],
        rounds = []\<rparr>)
     = [BytesLeidos 9, Respuesta [0xFF, 0x86, 0x00, 0x05, 0x00, 0x00, 0x00, 0x00, 0x75],
        ContenidoAlcohol 5, EstadoAlarma SinAlcohol]
   \<and> console (leerResultado
      \<lparr>currentStatus = STATUS_READ_RESULT, resultAvailable = True, sent = [], console = [],
        incoming = [[Some 0xFF, Some 0x86, Some 0x00, Some 0x05, Some 0x00, Some 0x00, Some 0x00,
                     Some 0x09, Some 0x6C]],
        rounds = []\<rparr>)
     = [BytesLeidos 9, Respuesta [0xFF, 0x86, 0x00, 0x05, 0x00, 0x00, 0x00, 0x09, 0x6C],
        ContenidoAlcohol 5, EstadoAlarma (AlarmaDesconocida 0x09)]"
proof -
  let ?s = "\<lparr>currentStatus = STATUS_READ_RESULT, resultAvailable = True, sent = [], console = [],
              incoming = [], rounds = []\<rparr>"
  have a: "console (leerResultado
      (?s\<lparr>incoming := [Some 0xFF, Some 0x86, Some 0x00, Some 0x32, Some 0x00, Some 0x00, Some 0x00,
                     Some 0x01, Some 0x47] # []\<rparr>))
     = [BytesLeidos 9, Respuesta [0xFF, 0x86, 0x00, 0x32, 0x00, 0x00, 0x00, 0x01, 0x47],
        ContenidoAlcohol 50, EstadoAlarma Bebido]"
    using leerResultado_decodes [where g = "[]" and rest = "[]" and later = "[]" and s = ?s
      and r = "[0xFF, 0x86, 0x00, 0x32, 0x00, 0x00, 0x00, 0x01, 0x47]"
      and ps = "[Some 0xFF, Some 0x86, Some 0x00, Some 0x32, Some 0x00, Some 0x00, Some 0x00,
                 Some 0x01, Some 0x47]", THEN conjunct1]
    by simp
  have b: "console (leerResultado
      (?s\<lparr>incoming := [Some 0x00, Some 0xFF, Some 0x86, Some 0x01, Some 0x02, Some 0x00, Some 0x00,
                     Some 0x00, Some 0x02, Some 0x75] # []\<rparr>))
     = [BytesLeidos 9, Respuesta [0xFF, 0x86, 0x01, 0x02, 0x00, 0x00, 0x00, 0x02, 0x75],
        ContenidoAlcohol 258, EstadoAlarma Ebrio]"
    using leerResultado_decodes [where g = "[0x00]" and rest = "[]" and later = "[]" and s = ?s
      and r = "[0xFF, 0x86, 0x01, 0x02, 0x00, 0x00, 0x00, 0x02, 0x75]"
      and ps = "[Some 0x00, Some 0xFF, Some 0x86, Some 0x01, Some 0x02, Some 0x00, Some 0x00,
                 Some 0x00, Some 0x02, Some 0x75]", THEN conjunct1]
    by simp
  have c: "console (leerResultado
      (?s\<lparr>incoming := [Some 0xFF, Some 0x86, Some 0x00, Some 0x05, Some 0x00, Some 0x00, Some 0x00,
                     Some 0x00, Some 0x75] # []\<rparr>))
     = [BytesLeidos 9, Respuesta [0xFF, 0x86, 0x00, 0x05, 0x00, 0x00, 0x00, 0x00, 0x75],
        ContenidoAlcohol 5, EstadoAlarma SinAlcohol]"
    using leerResultado_decodes [where g = "[]" and rest = "[]" and later = "[]" and s = ?s
      and r = "[0xFF, 0x86, 0x00, 0x05, 0x00, 0x00, 0x00, 0x00, 0x75]"
      and ps = "[Some 0xFF, Some 0x86, Some 0x00, Some 0x05, Some 0x00, Some 0x00, Some 0x00,
                 Some 0x00, Some 0x75]", THEN conjunct1]
    by simp
  have d: "console (leerResultado
      (?s\<lparr>incoming := [Some 0xFF, Some 0x86, Some 0x00, Some 0x05, Some 0x00, Some 0x00, Some 0x00,
                     Some 0x09, Some 0x6C] # []\<rparr>))
     = [BytesLeidos 9, Respuesta [0xFF, 0x86, 0x00, 0x05, 0x00, 0x00, 0x00, 0x09, 0x6C],
        ContenidoAlcohol 5, EstadoAlarma (AlarmaDesconocida 0x09)]"
    using leerResultado_decodes [where g = "[]" and rest = "[]" and later = "[]" and s = ?s
      and r = "[0xFF, 0x86, 0x00, 0x05, 0x00, 0x00, 0x00, 0x09, 0x6C]"
      and ps = "[Some 0xFF, Some 0x86, Some 0x00, Some 0x05, Some 0x00, Some 0x00, Some 0x00,
                 Some 0x09, Some 0x6C]", THEN conjunct1]
    by simp
  from a b c d show ?thesis by simp
qed

text \<open>
  Claim C8. \<^verbatim>\<open>configurarTiempoSoplado\<close> checks \<open>1 \<le> nuevoTiempo \<le> 10\<close> before it builds a
  frame: for every byte outside the range the call only prints the range error; nothing
  is written to the sensor, no response is read, no global changes. Inside the range the
  frame is written.
\<close>

theorem configurarTiempoSoplado_validates:
  "(unat nuevoTiempo < 1 \<or> 10 < unat nuevoTiempo \<longrightarrow>
      configurarTiempoSoplado nuevoTiempo s = s\<lparr>console := console s @ [TiempoFueraDeRango]\<rparr>)
   \<and> (1 \<le> unat nuevoTiempo \<and> unat nuevoTiempo \<le> 10 \<longrightarrow>
      sent (configurarTiempoSoplado nuevoTiempo s) = sent s @ [cmd_configurarTiempoSoplado nuevoTiempo])"
proof -
  have a: "nuevoTiempo < 1 \<longleftrightarrow> unat nuevoTiempo < 1" by (simp add: word_less_nat_alt)
  have b: "10 < nuevoTiempo \<longleftrightarrow> 10 < unat nuevoTiempo" by (simp add: word_less_nat_alt)
  show ?thesis
  proof (intro conjI impI)
    assume "unat nuevoTiempo < 1 \<or> 10 < unat nuevoTiempo"
    then have "nuevoTiempo < 1 \<or> 10 < nuevoTiempo" using a b by blast
    then show "configurarTiempoSoplado nuevoTiempo s = s\<lparr>console := console s @ [TiempoFueraDeRango]\<rparr>"
      by (simp add: configurarTiempoSoplado_def imprimir_def)
  next
    assume "1 \<le> unat nuevoTiempo \<and> unat nuevoTiempo \<le> 10"
    then have "\<not> (nuevoTiempo < 1 \<or> 10 < nuevoTiempo)" using a b by auto
    then show "sent (configurarTiempoSoplado nuevoTiempo s) = sent s @ [cmd_configurarTiempoSoplado nuevoTiempo]"
      by (simp add: sent_configurarTiempoSoplado)
  qed
qed

theorem configurarTiempoSoplado_validates_witness:
  "configurarTiempoSoplado 11
     \<lparr>currentStatus = STATUS_IDLE, resultAvailable = False, sent = [cmdEstado], console = [],
       incoming = [[Some 0xFF]], rounds = []\<rparr>
   = \<lparr>currentStatus = STATUS_IDLE, resultAvailable = False, sent = [cmdEstado],
       console = [TiempoFueraDeRango], incoming = [[Some 0xFF]], rounds = []\<rparr>
   \<and> configurarTiempoSoplado 0
     \<lparr>currentStatus = STATUS_IDLE, resultAvailable = False, sent = [cmdEstado], console = [],
       incoming = [[Some 0xFF]], rounds = []\<rparr>
   = \<lparr>currentStatus = STATUS_IDLE, resultAvailable = False, sent = [cmdEstado],
       console = [TiempoFueraDeRango], incoming = [[Some 0xFF]], rounds = []\<rparr>
   \<and> sent (configurarTiempoSoplado 10
     \<lparr>currentStatus = STATUS_IDLE, resultAvailable = False, sent = [cmdEstado], console = [],
       incoming = [[Some 0xFF]], rounds = []\<rparr>)
   = [cmdEstado, cmd_configurarTiempoSoplado 10]"
  using
    configurarTiempoSoplado_validates [where nuevoTiempo = 11
      and s = "\<lparr>currentStatus = STATUS_IDLE, resultAvailable = False, sent = [cmdEstado], console = [],
                incoming = [[Some 0xFF]], rounds = []\<rparr>"]
    configurarTiempoSoplado_validates [where nuevoTiempo = 0
      and s = "\<lparr>currentStatus = STATUS_IDLE, resultAvailable = False, sent = [cmdEstado], console = [],
                incoming = [[Some 0xFF]], rounds = []\<rparr>"]
    configurarTiempoSoplado_validates [where nuevoTiempo = 10
      and s = "\<lparr>currentStatus = STATUS_IDLE, resultAvailable = False, sent = [cmdEstado], console = [],
                incoming = [[Some 0xFF]], rounds = []\<rparr>"]
  by simp

lemma iniciarPrueba_consulta_frame:
  assumes "length r = 9" "r ! 0 = 0xFF" "0xFF \<notin> set g" "bytes_of ps = g @ r @ rest"
  shows "iniciarPrueba_consulta (s\<lparr>incoming := ps # later\<rparr>) =
     (if r ! 1 = 0x85 then
        s\<lparr>currentStatus := r ! 2,
          sent := sent s @ [cmdEstado],
          console := console s @
            [IniciandoPrueba, BytesLeidos 9, Respuesta r, EstadoAntesDeIniciar (r ! 2)],
          incoming := later\<rparr>
      else
        s\<lparr>sent := sent s @ [cmdEstado],
          console := console s @ [IniciandoPrueba, BytesLeidos 9, Respuesta r],
          incoming := later\<rparr>)"
proof -
  have fr: "\<And>b s'. length b = 9 \<Longrightarrow> incoming s' = ps # later \<Longrightarrow>
      leerRespuesta b 9 s' = ((True, r), s'\<lparr>console := console s' @ [BytesLeidos 9, Respuesta r], incoming := later\<rparr>)"
    using assms by (intro leerRespuesta_frame [where g = g and rest = rest]) auto
  show ?thesis
    using assms(2)
    by (simp add: iniciarPrueba_consulta_def enviarComando_def fr length_response0 length_cmd
        imprimir_def Let_def)
qed

lemma iniciarPrueba_consulta_timeout:
  assumes "length (dropWhile (\<lambda>b. b \<noteq> 0xFF) (bytes_of ps)) < 9"
  shows "currentStatus (iniciarPrueba_consulta (s\<lparr>incoming := ps # later\<rparr>)) = currentStatus s"
proof -
  let ?s1 = "s\<lparr>sent := sent s @ [cmdEstado], console := console s @ [IniciandoPrueba]\<rparr>"
  have e: "enviarComando cmdEstado 9 (imprimir [IniciandoPrueba] (s\<lparr>incoming := ps # later\<rparr>))
      = ?s1\<lparr>incoming := ps # later\<rparr>"
    by (simp add: enviarComando_def imprimir_def length_cmd)
  have f: "fst (fst (leerRespuesta response0 9 (?s1\<lparr>incoming := ps # later\<rparr>))) = False"
    by (simp add: leerRespuesta_timeout [OF length_response0 assms] del: dropWhile_eq_Nil_conv)
  have k: "currentStatus (snd (leerRespuesta response0 9 (?s1\<lparr>incoming := ps # later\<rparr>)))
      = currentStatus s"
    by (simp add: leerRespuesta_keeps)
  show ?thesis
    unfolding iniciarPrueba_consulta_def Let_def case_prod_beta e using f k by simp
qed

text \<open>
  Claim C5, amended. The claim says that \<^verbatim>\<open>iniciarPrueba\<close>, called while the mirrored state
  is Blowing, writes nothing at all to the sensor. What holds instead:
  \<^item> \<^verbatim>\<open>iniciarPrueba\<close> always begins by writing the status query (lines 268-269): it is
    the first frame the call writes, whatever the mirrored state;
  \<^item> the query refreshes the mirrored state (lines 272-278): when a whole response \<open>r\<close>
    arrives, \<open>currentStatus\<close> becomes its byte 2 if its command echo is 0x85 and is kept
    otherwise; when the read times out, \<open>currentStatus\<close> is kept;
  \<^item> the test of line 281 is on the refreshed state: when it is Blowing, the status query
    is the only frame written (no change-state command) and the call ends by printing
    that the test cannot be started. In particular, when the sensor answers the query
    with Blowing the call refuses, whatever the mirrored state was before.
\<close>

theorem iniciarPrueba_gate:
  "sent (iniciarPrueba_consulta s) = sent s @ [cmdEstado]
   \<and> take (Suc (length (sent s))) (sent (iniciarPrueba s)) = sent s @ [cmdEstado]
   \<and> (length r = 9 \<and> r ! 0 = 0xFF \<and> 0xFF \<notin> set g \<and> bytes_of ps = g @ r @ rest \<longrightarrow>
        currentStatus (iniciarPrueba_consulta (s\<lparr>incoming := ps # later\<rparr>))
          = (if r ! 1 = 0x85 then r ! 2 else currentStatus s))
   \<and> (length (dropWhile (\<lambda>b. b \<noteq> 0xFF) (bytes_of ps)) < 9 \<longrightarrow>
        currentStatus (iniciarPrueba_consulta (s\<lparr>incoming := ps # later\<rparr>)) = currentStatus s)
   \<and> (currentStatus (iniciarPrueba_consulta s) = STATUS_BLOWING \<longrightarrow>
        sent (iniciarPrueba s) = sent s @ [cmdEstado]
        \<and> iniciarPrueba s = imprimir [NoSePuedeIniciar] (iniciarPrueba_consulta s))
   \<and> (length r = 9 \<and> r ! 0 = 0xFF \<and> r ! 1 = 0x85 \<and> r ! 2 = STATUS_BLOWING
        \<and> 0xFF \<notin> set g \<and> bytes_of ps = g @ r @ rest \<longrightarrow>
        iniciarPrueba (s\<lparr>incoming := ps # later\<rparr>)
          = s\<lparr>currentStatus := STATUS_BLOWING,
              sent := sent s @ [cmdEstado],
              console := console s @
                [IniciandoPrueba, BytesLeidos 9, Respuesta r, EstadoAntesDeIniciar STATUS_BLOWING,
                 NoSePuedeIniciar],
              incoming := later\<rparr>)"
proof (intro conjI impI)
  show "sent (iniciarPrueba_consulta s) = sent s @ [cmdEstado]"
    by (rule sent_iniciarPrueba_consulta)
next
  obtain k where "sent (iniciarPrueba s) =
     (if currentStatus (iniciarPrueba_consulta s) = STATUS_IDLE
         \<or> currentStatus (iniciarPrueba_consulta s) = STATUS_READ_RESULT
      then sent s @ cmdEstado # replicate k cmdEstado @ [cmd_cambiarEstado STATUS_PREHEATING]
      else sent s @ [cmdEstado])"
    using sent_iniciarPrueba by blast
  then show "take (Suc (length (sent s))) (sent (iniciarPrueba s)) = sent s @ [cmdEstado]"
    by simp
next
  assume "length r = 9 \<and> r ! 0 = 0xFF \<and> 0xFF \<notin> set g \<and> bytes_of ps = g @ r @ rest"
  then show "currentStatus (iniciarPrueba_consulta (s\<lparr>incoming := ps # later\<rparr>))
          = (if r ! 1 = 0x85 then r ! 2 else currentStatus s)"
    using iniciarPrueba_consulta_frame [where r = r and g = g and ps = ps and rest = rest
        and s = s and later = later]
    by simp
next
  assume "length (dropWhile (\<lambda>b. b \<noteq> 0xFF) (bytes_of ps)) < 9"
  then show "currentStatus (iniciarPrueba_consulta (s\<lparr>incoming := ps # later\<rparr>)) = currentStatus s"
    by (rule iniciarPrueba_consulta_timeout)
next
  assume b: "currentStatus (iniciarPrueba_consulta s) = STATUS_BLOWING"
  then show "sent (iniciarPrueba s) = sent s @ [cmdEstado]"
    by (simp add: iniciarPrueba_def Let_def sent_imprimir sent_iniciarPrueba_consulta status_defs)
  from b show "iniciarPrueba s = imprimir [NoSePuedeIniciar] (iniciarPrueba_consulta s)"
    by (simp add: iniciarPrueba_def Let_def status_defs)
next
  assume h: "length r = 9 \<and> r ! 0 = 0xFF \<and> r ! 1 = 0x85 \<and> r ! 2 = STATUS_BLOWING
        \<and> 0xFF \<notin> set g \<and> bytes_of ps = g @ r @ rest"
  then have "iniciarPrueba_consulta (s\<lparr>incoming := ps # later\<rparr>)
      = s\<lparr>currentStatus := STATUS_BLOWING,
          sent := sent s @ [cmdEstado],
          console := console s @
            [IniciandoPrueba, BytesLeidos 9, Respuesta r, EstadoAntesDeIniciar STATUS_BLOWING],
          incoming := later\<rparr>"
    using iniciarPrueba_consulta_frame [where r = r and g = g and ps = ps and rest = rest
        and s = s and later = later]
    by simp
  then show "iniciarPrueba (s\<lparr>incoming := ps # later\<rparr>)
          = s\<lparr>currentStatus := STATUS_BLOWING,
              sent := sent s @ [cmdEstado],
              console := console s @
                [IniciandoPrueba, BytesLeidos 9, Respuesta r, EstadoAntesDeIniciar STATUS_BLOWING,
                 NoSePuedeIniciar],
              incoming := later\<rparr>"
    by (simp add: iniciarPrueba_def Let_def imprimir_def status_defs)
qed

theorem iniciarPrueba_gate_witness:
  "iniciarPrueba
      \<lparr>currentStatus = STATUS_IDLE, resultAvailable = False, sent = [], console = [],
        incoming = [[Some 0xFF, Some 0x85, Some 0x34, Some 0x00, Some 0x00, Some 0x00, Some 0x00,
                     Some 0x00, Some 0x47]],
        rounds = []\<rparr>
     = \<lparr>currentStatus = STATUS_BLOWING, resultAvailable = False, sent = [cmdEstado],
         console = [IniciandoPrueba, BytesLeidos 9,
                    Respuesta [0xFF, 0x85, 0x34, 0x00, 0x00, 0x00, 0x00, 0x00, 0x47],
                    EstadoAntesDeIniciar STATUS_BLOWING, NoSePuedeIniciar],
         incoming = [], rounds = []\<rparr>
   \<and> currentStatus (iniciarPrueba_consulta
      \<lparr>currentStatus = STATUS_BLOWING, resultAvailable = False, sent = [], console = [],
        incoming = [[Some 0x12, None, Some 0xFF, Some 0x85]], rounds = []\<rparr>) = STATUS_BLOWING
   \<and> sent (iniciarPrueba
      \<lparr>currentStatus = STATUS_BLOWING, resultAvailable = False, sent = [], console = [],
        incoming = [[Some 0x12, None, Some 0xFF, Some 0x85]], rounds = []\<rparr>) = [cmdEstado]"
proof -
  let ?s = "\<lparr>currentStatus = STATUS_IDLE, resultAvailable = False, sent = [], console = [],
        incoming = [], rounds = []\<rparr>"
  let ?t = "\<lparr>currentStatus = STATUS_BLOWING, resultAvailable = False, sent = [], console = [],
        incoming = [], rounds = []\<rparr>"
  let ?u = "\<lparr>currentStatus = STATUS_BLOWING, resultAvailable = False, sent = [], console = [],
        incoming = [[Some 0x12, None, Some 0xFF, Some 0x85]], rounds = []\<rparr>"
  have a: "iniciarPrueba
      (?s\<lparr>incoming := [Some 0xFF, Some 0x85, Some 0x34, Some 0x00, Some 0x00, Some 0x00, Some 0x00,
                     Some 0x00, Some 0x47] # []\<rparr>)
     = ?s\<lparr>currentStatus := STATUS_BLOWING, sent := sent ?s @ [cmdEstado],
         console := console ?s @ [IniciandoPrueba, BytesLeidos 9,
                    Respuesta [0xFF, 0x85, 0x34, 0x00, 0x00, 0x00, 0x00, 0x00, 0x47],
                    EstadoAntesDeIniciar STATUS_BLOWING, NoSePuedeIniciar],
         incoming := []\<rparr>"
    using iniciarPrueba_gate [where s = ?s and g = "[]" and rest = "[]" and later = "[]"
        and r = "[0xFF, 0x85, 0x34, 0x00, 0x00, 0x00, 0x00, 0x00, 0x47]"
        and ps = "[Some 0xFF, Some 0x85, Some 0x34, Some 0x00, Some 0x00, Some 0x00, Some 0x00,
                     Some 0x00, Some 0x47]"]
    by (simp add: STATUS_BLOWING_def)
  have b: "currentStatus (iniciarPrueba_consulta (?t\<lparr>incoming := [Some 0x12, None, Some 0xFF, Some 0x85] # []\<rparr>))
      = currentStatus ?t"
    using iniciarPrueba_gate [where s = ?t and later = "[]"
        and ps = "[Some 0x12, None, Some 0xFF, Some 0x85]"]
    by simp
  then have c: "currentStatus (iniciarPrueba_consulta ?u) = STATUS_BLOWING"
    by simp
  have "sent (iniciarPrueba ?u) = sent ?u @ [cmdEstado]"
    using c iniciarPrueba_gate [where s = ?u, THEN conjunct2, THEN conjunct2, THEN conjunct2,
        THEN conjunct2, THEN conjunct1]
    by blast
  then have d: "sent (iniciarPrueba ?u) = [cmdEstado]"
    by simp
  from a c d show ?thesis by simp
qed

text \<open>
  The claim C5 as stated fails. With the mirrored state Blowing and a silent sensor, the
  call writes the nine bytes of the status query. With the mirrored state Blowing and a
  sensor that answers the query with Idle and is silent afterwards, the call writes
  three frames: the status query, the status query of the one pass of \<^verbatim>\<open>esperarEstado\<close>
  (which ends there, the state being Idle), and the change-state command.
\<close>

theorem iniciarPrueba_transmits_counterexample:
  "sent (iniciarPrueba
      \<lparr>currentStatus = STATUS_BLOWING, resultAvailable = False, sent = [], console = [],
        incoming = [], rounds = []\<rparr>)
     = [[0xFF, 0x01, 0x85, 0x00, 0x00, 0x00, 0x00, 0x00, 0x7A]]
   \<and> sent (iniciarPrueba
      \<lparr>currentStatus = STATUS_BLOWING, resultAvailable = False, sent = [], console = [],
        incoming = [[Some 0xFF, Some 0x85, Some 0x31, Some 0x00, Some 0x00, Some 0x00, Some 0x00,
                     Some 0x00, Some 0x4A]],
        rounds = []\<rparr>)
     = [[0xFF, 0x01, 0x85, 0x00, 0x00, 0x00, 0x00, 0x00, 0x7A],
        [0xFF, 0x01, 0x85, 0x00, 0x00, 0x00, 0x00, 0x00, 0x7A],
        [0xFF, 0x01, 0x87, 0x32, 0x00, 0x00, 0x00, 0x00, 0x46]]"
proof -
  let ?s = "\<lparr>currentStatus = STATUS_BLOWING, resultAvailable = False, sent = [], console = [],
        incoming = [], rounds = []\<rparr>"
  let ?ps = "[Some 0xFF, Some 0x85, Some 0x31, Some 0x00, Some 0x00, Some 0x00, Some 0x00,
                     Some (0x00::byte), Some 0x4A]"
  let ?s1 = "\<lparr>currentStatus = STATUS_IDLE, resultAvailable = False, sent = [cmdEstado],
        console = [IniciandoPrueba, BytesLeidos 9,
                   Respuesta [0xFF, 0x85, 0x31, 0x00, 0x00, 0x00, 0x00, 0x00, 0x4A],
                   EstadoAntesDeIniciar STATUS_IDLE],
        incoming = [], rounds = []\<rparr>"
  have a: "sent (iniciarPrueba ?s) = [[0xFF, 0x01, 0x85, 0x00, 0x00, 0x00, 0x00, 0x00, 0x7A]]"
    by (simp add: iniciarPrueba_def Let_def iniciarPrueba_consulta_silence status_defs
        sent_imprimir cmdEstado_def)
  have c: "iniciarPrueba_consulta (?s\<lparr>incoming := ?ps # []\<rparr>) = ?s1"
    by (subst iniciarPrueba_consulta_frame [where g = "[]" and rest = "[]"
          and r = "[0xFF, 0x85, 0x31, 0x00, 0x00, 0x00, 0x00, 0x00, 0x4A]"])
       (simp_all add: STATUS_IDLE_def)
  have e: "sent (esperarEstado STATUS_IDLE 10000 ?s1) = [cmdEstado, cmdEstado]"
    by (simp add: esperarEstado_def Let_def sent_verificarEstado sent_imprimir)
  have p: "cmd_cambiarEstado STATUS_PREHEATING = [0xFF, 0x01, 0x87, 0x32, 0x00, 0x00, 0x00, 0x00, 0x46]"
    unfolding cmd_cambiarEstado_def checksum_cambiarEstado_def sumar_1_8
    by (simp add: byte_masked_not_plus_1_def STATUS_PREHEATING_def)
  have "iniciarPrueba (?s\<lparr>incoming := ?ps # []\<rparr>)
      = imprimir [IniciandoPrecalentamiento]
          (cambiarEstado STATUS_PREHEATING (esperarEstado STATUS_IDLE 10000 ?s1))"
    unfolding iniciarPrueba_def Let_def c by simp
  then have b: "sent (iniciarPrueba (?s\<lparr>incoming := ?ps # []\<rparr>))
      = [[0xFF, 0x01, 0x85, 0x00, 0x00, 0x00, 0x00, 0x00, 0x7A],
         [0xFF, 0x01, 0x85, 0x00, 0x00, 0x00, 0x00, 0x00, 0x7A],
         [0xFF, 0x01, 0x87, 0x32, 0x00, 0x00, 0x00, 0x00, 0x46]]"
    by (simp add: sent_imprimir sent_cambiarEstado e p) (simp add: cmdEstado_def)
  from a b show ?thesis by simp
qed

text \<open>
  Claim C4, amended. The frame that \<^verbatim>\<open>configurarTiempoSoplado(7)\<close> writes is
  \<open>FF 01 89 07 00 00 00 00 6F\<close>: the check byte is 0x6F, not 0x68. The checksum-correct
  response \<open>FF 89 01 00 00 00 00 00 76\<close> is reported as success.
\<close>

theorem write_blow_time_7:
  "sent (configurarTiempoSoplado 7 s)
     = sent s @ [[0xFF, 0x01, 0x89, 0x07, 0x00, 0x00, 0x00, 0x00, 0x6F]]
   \<and> spec_checksum_valid [0xFF, 0x89, 0x01, 0x00, 0x00, 0x00, 0x00, 0x00, 0x76]
   \<and> console (configurarTiempoSoplado 7
        (s\<lparr>incoming := [Some 0xFF, Some 0x89, Some 0x01, Some 0x00, Some 0x00, Some 0x00, Some 0x00,
                         Some 0x00, Some 0x76] # later\<rparr>))
     = console s @
         [ConfigurandoTiempo 7, Enviando [0xFF, 0x01, 0x89, 0x07, 0x00, 0x00, 0x00, 0x00, 0x6F],
          BytesLeidos 9, Respuesta [0xFF, 0x89, 0x01, 0x00, 0x00, 0x00, 0x00, 0x00, 0x76],
          ConfiguracionExitosa]"
proof -
  have a: "sent (configurarTiempoSoplado 7 s)
     = sent s @ [[0xFF, 0x01, 0x89, 0x07, 0x00, 0x00, 0x00, 0x00, 0x6F]]"
    by (simp add: sent_configurarTiempoSoplado cmd_configurarTiempoSoplado_7)
  have b: "spec_checksum_valid [0xFF, 0x89, 0x01, 0x00, 0x00, 0x00, 0x00, 0x00, 0x76]"
    by (simp add: spec_checksum_valid_def spec_checksum_def)
  have c: "console (configurarTiempoSoplado 7
        (s\<lparr>incoming := [Some 0xFF, Some 0x89, Some 0x01, Some 0x00, Some 0x00, Some 0x00, Some 0x00,
                         Some 0x00, Some 0x76] # later\<rparr>))
     = console s @
         [ConfigurandoTiempo 7, Enviando [0xFF, 0x01, 0x89, 0x07, 0x00, 0x00, 0x00, 0x00, 0x6F],
          BytesLeidos 9, Respuesta [0xFF, 0x89, 0x01, 0x00, 0x00, 0x00, 0x00, 0x00, 0x76],
          ConfiguracionExitosa]"
    by (subst configurarTiempoSoplado_frame [where g = "[]" and rest = "[]"
          and r = "[0xFF, 0x89, 0x01, 0x00, 0x00, 0x00, 0x00, 0x00, 0x76]"])
       (simp_all add: cmd_configurarTiempoSoplado_7)
  from a b c show ?thesis by blast
qed

text \<open>
  The claim C4 as stated fails: the frame built for the blow time 7 is not the one with
  the check byte 0x68.
\<close>

theorem write_blow_time_7_counterexample:
  "cmd_configurarTiempoSoplado 7 \<noteq> [0xFF, 0x01, 0x89, 0x07, 0x00, 0x00, 0x00, 0x00, 0x68]
   \<and> sent (configurarTiempoSoplado 7
        \<lparr>currentStatus = STATUS_IDLE, resultAvailable = False, sent = [], console = [],
          incoming = [], rounds = []\<rparr>)
     \<noteq> [[0xFF, 0x01, 0x89, 0x07, 0x00, 0x00, 0x00, 0x00, 0x68]]"
  by (simp add: sent_configurarTiempoSoplado cmd_configurarTiempoSoplado_7)

end
